theory Spec2Isabelle
  imports Complex_Main "HOL-Library.Log_Nat"
begin

section \<open>Curvee Reactor: the simulation core of \<^verbatim>\<open>bezier-curve.js\<close>\<close>

text \<open>
  The development embeds the class \<^verbatim>\<open>CurveeReactor\<close> shallowly.

  \<^item> A JavaScript number is a real number; \<^verbatim>\<open>NaN\<close> and the infinities are outside the
    model.  The arithmetic of \<^verbatim>\<open>createParticles\<close>, where the ranges of the results depend
    on the rounding, is rounded to IEEE doubles operation by operation (\<open>round_double\<close>);
    the other functions compute exactly.
  \<^item> The four control points are objects that the pointer state may alias
    (\<^verbatim>\<open>this.mouse.targetPoint === point\<close>), so they live in a store from references to
    points and \<^verbatim>\<open>this.controlPoints\<close> is a list of references.  Rest-pose points,
    velocities and particles are never aliased and are kept as values.
  \<^item> Reading a property of \<^verbatim>\<open>undefined\<close> throws a \<^verbatim>\<open>TypeError\<close>; a function that
    can throw returns an option and \<open>None\<close> is the exception.
  \<^item> \<^verbatim>\<open>Math.random()\<close> draws from a sequence of numbers carried by the state, and
    \<^verbatim>\<open>Math.cos\<close> and \<^verbatim>\<open>Math.sin\<close>, which the language leaves to the implementation, are
    functions carried by the state.
  \<^item> \<^verbatim>\<open>canvas.width\<close> and \<^verbatim>\<open>canvas.height\<close> are the attributes of an
    \<^verbatim>\<open>HTMLCanvasElement\<close>: a number assigned to them is converted to an unsigned integer.
\<close>

subsection \<open>Data model\<close>

record point =
  pt_x :: real
  pt_y :: real

type_synonym ref = nat

record mouse =
  mouse_x :: real
  mouse_y :: real
  mouse_px :: real
  mouse_py :: real
  mouse_vx :: real
  mouse_vy :: real
  isDown :: bool
  targetPoint :: "ref option"

record particle =
  par_x :: real
  par_y :: real
  par_vx :: real
  par_vy :: real
  life :: real
  decay :: real
  par_size :: real
  color :: "string option"
  rotation :: real

text \<open>
  The fields of \<^verbatim>\<open>this\<close>.  \<open>controlPoints\<close> and \<open>mouse\<close> are \<open>None\<close> while the
  constructor has not assigned them (the source tests both: \<^verbatim>\<open>!this.controlPoints\<close>,
  \<^verbatim>\<open>this.mouse?.isDown\<close>).  \<open>next_ref\<close> is the first reference not yet allocated.
\<close>

record reactor =
  canvas_width :: real
  canvas_height :: real
  devicePixelRatio :: real
  heap :: "ref \<Rightarrow> point"
  next_ref :: ref
  initialPoints :: "point list"
  controlPoints :: "ref list option"
  physics_enabled :: bool
  physics_stiffness :: real
  physics_damping :: real
  physics_mouseInfluence :: real
  physics_velocities :: "point list"
  mouse :: "mouse option"
  particles_enabled :: bool
  particles_list :: "particle list"
  particles_colors :: "string list"
  rand :: "nat \<Rightarrow> real"
  Math_cos :: "real \<Rightarrow> real"
  Math_sin :: "real \<Rightarrow> real"

text \<open>\<^verbatim>\<open>a[i]\<close> followed by a property access: out of range the element is
  \<^verbatim>\<open>undefined\<close> and the access throws.\<close>

definition lookup :: "'a list \<Rightarrow> nat \<Rightarrow> 'a option" where
  "lookup xs i = (if i < length xs then Some (xs ! i) else None)"

text \<open>\<^verbatim>\<open>this.controlPoints[i]\<close>, dereferenced.\<close>

definition controlPoint :: "reactor \<Rightarrow> nat \<Rightarrow> point option" where
  "controlPoint s i =
     (case controlPoints s of
        None \<Rightarrow> None
      | Some cps \<Rightarrow> (case lookup cps i of None \<Rightarrow> None | Some r \<Rightarrow> Some (heap s r)))"

text \<open>\<^verbatim>\<open>window.devicePixelRatio || 1\<close>\<close>

definition dpi :: "reactor \<Rightarrow> real" where
  "dpi s = (if devicePixelRatio s = 0 then 1 else devicePixelRatio s)"

subsection \<open>IEEE double arithmetic\<close>

text \<open>Rounding of a real to the nearest integer, a tie going to the even one.\<close>

definition roundTiesToEven :: "real \<Rightarrow> int" where
  "roundTiesToEven q =
     (let n = \<lfloor>q\<rfloor>
      in if q - of_int n < 1 / 2 then n
         else if q - of_int n > 1 / 2 then n + 1
         else if even n then n else n + 1)"

text \<open>
  Rounding to the nearest number of a binary floating-point format with \<open>p\<close> significant
  bits whose smallest positive number is \<open>2\<^sup>-\<^sup>n\<close>, ties to even: with \<open>y\<close> the number in
  units of \<open>2\<^sup>-\<^sup>n\<close>, the spacing of the format around \<open>y\<close> is \<open>2\<close> to the number of bits of
  the integer part of \<open>y\<close> beyond \<open>p\<close>.  Overflow to infinity is not modelled.
\<close>

definition round_binary :: "nat \<Rightarrow> nat \<Rightarrow> real \<Rightarrow> real" where
  "round_binary p n x =
     (let y = x * 2 ^ n;
          u = 2 ^ nat (bitlen \<lfloor>\<bar>y\<bar>\<rfloor> - int p)
      in of_int (roundTiesToEven (y / u)) * u / 2 ^ n)"

text \<open>The result of an arithmetic operation on doubles, and the value of a decimal literal:
  binary64 has 53 significant bits and the smallest positive number \<open>2\<^sup>-\<^sup>1\<^sup>0\<^sup>7\<^sup>4\<close>.\<close>

definition round_double :: "real \<Rightarrow> real" where
  "round_double x = round_binary 53 1074 x"

text \<open>\<^verbatim>\<open>Math.PI\<close>, the double nearest to \<open>\<pi>\<close>: 3.141592653589793.\<close>

definition Math_PI :: real where
  "Math_PI = 884279719003555 / 2 ^ 48"

subsection \<open>Core math functions\<close>

definition calculateBezierPoint :: "reactor \<Rightarrow> real \<Rightarrow> point option" where
  "calculateBezierPoint s t =
     (let u = 1 - t;
          tt = t * t;
          uu = u * u;
          uuu = uu * u;
          ttt = tt * t
      in case controlPoint s 0 of None \<Rightarrow> None | Some p0 \<Rightarrow>
        (case controlPoint s 1 of None \<Rightarrow> None | Some p1 \<Rightarrow>
        (case controlPoint s 2 of None \<Rightarrow> None | Some p2 \<Rightarrow>
        (case controlPoint s 3 of None \<Rightarrow> None | Some p3 \<Rightarrow>
           Some \<lparr> pt_x = uuu * pt_x p0 + 3 * uu * t * pt_x p1 + 3 * u * tt * pt_x p2 + ttt * pt_x p3,
                  pt_y = uuu * pt_y p0 + 3 * uu * t * pt_y p1 + 3 * u * tt * pt_y p2 + ttt * pt_y p3 \<rparr>))))"

definition calculateBezierTangent :: "reactor \<Rightarrow> real \<Rightarrow> point option" where
  "calculateBezierTangent s t =
     (let u = 1 - t
      in case controlPoint s 0 of None \<Rightarrow> None | Some p0 \<Rightarrow>
        (case controlPoint s 1 of None \<Rightarrow> None | Some p1 \<Rightarrow>
        (case controlPoint s 2 of None \<Rightarrow> None | Some p2 \<Rightarrow>
        (case controlPoint s 3 of None \<Rightarrow> None | Some p3 \<Rightarrow>
           Some \<lparr> pt_x = 3 * u * u * (pt_x p1 - pt_x p0) + 6 * u * t * (pt_x p2 - pt_x p1)
                         + 3 * t * t * (pt_x p3 - pt_x p2),
                  pt_y = 3 * u * u * (pt_y p1 - pt_y p0) + 6 * u * t * (pt_y p2 - pt_y p1)
                         + 3 * t * t * (pt_y p3 - pt_y p2) \<rparr>))))"

subsection \<open>Boundary clamp\<close>

definition applyBoundaries :: "reactor \<Rightarrow> point \<Rightarrow> point \<Rightarrow> point \<times> point" where
  "applyBoundaries s point velocity =
     (let margin = 30;
          width = canvas_width s / dpi s;
          height = canvas_height s / dpi s;
          (point, velocity) =
            (if pt_x point < margin
             then (point\<lparr>pt_x := margin\<rparr>, velocity\<lparr>pt_x := pt_x velocity * (- 0.3)\<rparr>)
             else (point, velocity));
          (point, velocity) =
            (if pt_x point > width - margin
             then (point\<lparr>pt_x := width - margin\<rparr>, velocity\<lparr>pt_x := pt_x velocity * (- 0.3)\<rparr>)
             else (point, velocity));
          (point, velocity) =
            (if pt_y point < margin
             then (point\<lparr>pt_y := margin\<rparr>, velocity\<lparr>pt_y := pt_y velocity * (- 0.3)\<rparr>)
             else (point, velocity));
          (point, velocity) =
            (if pt_y point > height - margin
             then (point\<lparr>pt_y := height - margin\<rparr>, velocity\<lparr>pt_y := pt_y velocity * (- 0.3)\<rparr>)
             else (point, velocity))
      in (point, velocity))"

subsection \<open>Particle system\<close>

text \<open>\<^verbatim>\<open>Math.random()\<close>: the next number of the sequence, which moves on by one.\<close>

definition Math_random :: "reactor \<Rightarrow> real \<times> reactor" where
  "Math_random s = (rand s 0, s\<lparr>rand := (\<lambda>n. rand s (Suc n))\<rparr>)"

text \<open>\<^verbatim>\<open>colors[k]\<close> for a number \<open>k\<close>: \<^verbatim>\<open>undefined\<close> out of range, which is stored as
  it is and does not throw.\<close>

definition colorAt :: "string list \<Rightarrow> int \<Rightarrow> string option" where
  "colorAt cs k = (if 0 \<le> k \<and> k < int (length cs) then Some (cs ! nat k) else None)"

text \<open>The body of the loop of \<^verbatim>\<open>createParticles\<close>: seven draws in the order of
  the source, then \<^verbatim>\<open>push\<close>.  Every product and sum is rounded; the literals 3, 1, 0.5, 2
  and 4 are doubles, 0.01 and 0.02 denote the doubles nearest to them.\<close>

definition pushParticle :: "real \<Rightarrow> real \<Rightarrow> reactor \<Rightarrow> reactor" where
  "pushParticle x y s =
     (let (r, s) = Math_random s; angle = round_double (round_double (r * Math_PI) * 2);
          (r, s) = Math_random s; speed = round_double (round_double (r * 3) + 1);
          (r, s) = Math_random s; life' = round_double (0.5 + round_double (r * 0.5));
          (r, s) = Math_random s;
          decay' = round_double (round_double 0.01 + round_double (r * round_double 0.02));
          (r, s) = Math_random s; size' = round_double (2 + round_double (r * 4));
          (r, s) = Math_random s;
          color' = colorAt (particles_colors s)
                     \<lfloor>round_double (r * real (length (particles_colors s)))\<rfloor>;
          (r, s) = Math_random s; rotation' = round_double (round_double (r * Math_PI) * 2)
      in s\<lparr>particles_list := particles_list s @
           [\<lparr> par_x = x, par_y = y,
              par_vx = round_double (Math_cos s angle * speed),
              par_vy = round_double (Math_sin s angle * speed),
              life = life',
              decay = decay',
              par_size = size',
              color = color',
              rotation = rotation' \<rparr>]\<rparr>)"

function createParticles_loop :: "nat \<Rightarrow> nat \<Rightarrow> real \<Rightarrow> real \<Rightarrow> reactor \<Rightarrow> reactor" where
  "createParticles_loop i count x y s =
     (if i < count then createParticles_loop (Suc i) count x y (pushParticle x y s) else s)"
  by pat_completeness auto
termination
  by (relation "measure (\<lambda>(i, count, x, y, s). count - i)") auto

declare createParticles_loop.simps [simp del]

definition createParticles :: "reactor \<Rightarrow> real \<Rightarrow> real \<Rightarrow> nat \<Rightarrow> reactor" where
  "createParticles s x y count =
     (if \<not> particles_enabled s then s else createParticles_loop 0 count x y s)"

text \<open>The mutation of one particle in the loop of \<^verbatim>\<open>updateParticles\<close>.\<close>

definition updateParticle :: "particle \<Rightarrow> particle" where
  "updateParticle p =
     (let p = p\<lparr>par_x := par_x p + par_vx p\<rparr>;
          p = p\<lparr>par_y := par_y p + par_vy p\<rparr>;
          p = p\<lparr>par_vy := par_vy p + 0.1\<rparr>;
          p = p\<lparr>par_vx := par_vx p * 0.98\<rparr>;
          p = p\<lparr>par_vy := par_vy p * 0.98\<rparr>;
          p = p\<lparr>life := life p - decay p\<rparr>;
          p = p\<lparr>rotation := rotation p + 0.05\<rparr>
      in p)"

text \<open>\<^verbatim>\<open>list.splice(i, 1)\<close>\<close>

definition splice_at :: "'a list \<Rightarrow> nat \<Rightarrow> 'a list" where
  "splice_at xs i = take i xs @ drop (Suc i) xs"

text \<open>\<^verbatim>\<open>for (let i = list.length - 1; i >= 0; i--)\<close>\<close>

function updateParticles_loop :: "int \<Rightarrow> particle list \<Rightarrow> particle list option" where
  "updateParticles_loop i ps =
     (if i \<ge> 0
      then (case lookup ps (nat i) of
              None \<Rightarrow> None
            | Some p \<Rightarrow>
                updateParticles_loop (i - 1)
                  (if life (updateParticle p) \<le> 0
                   then splice_at (ps[nat i := updateParticle p]) (nat i)
                   else ps[nat i := updateParticle p]))
      else Some ps)"
  by pat_completeness auto
termination
  by (relation "measure (\<lambda>(i, ps). nat (i + 1))") auto

declare updateParticles_loop.simps [simp del]

definition updateParticles :: "reactor \<Rightarrow> reactor option" where
  "updateParticles s =
     (case updateParticles_loop (int (length (particles_list s)) - 1) (particles_list s) of
        None \<Rightarrow> None
      | Some ps \<Rightarrow> Some (s\<lparr>particles_list := ps\<rparr>))"

subsection \<open>Physics simulation\<close>

text \<open>The body of the loop of \<^verbatim>\<open>updatePhysics\<close> for the control point \<open>i\<close>.\<close>

definition updatePhysics_body :: "nat \<Rightarrow> reactor \<Rightarrow> reactor option" where
  "updatePhysics_body i s =
     (let pointIndex = i - 1 in
      case controlPoints s of None \<Rightarrow> None | Some cps \<Rightarrow>
     (case lookup cps i of None \<Rightarrow> None | Some point \<Rightarrow>
     (case lookup (physics_velocities s) pointIndex of None \<Rightarrow> None | Some velocity \<Rightarrow>
     (case mouse s of None \<Rightarrow> None | Some m \<Rightarrow>
      if targetPoint m = Some point
      then Some (s\<lparr>physics_velocities :=
                     (physics_velocities s)[pointIndex := \<lparr>pt_x = 0, pt_y = 0\<rparr>]\<rparr>)
      else
       (case lookup (initialPoints s) i of None \<Rightarrow> None | Some rest \<Rightarrow>
        let canvasWidth = canvas_width s / dpi s;
            canvasHeight = canvas_height s / dpi s;
            mouseX = mouse_x m / dpi s;
            mouseY = mouse_y m / dpi s;
            targetX = pt_x rest;
            targetY = pt_y rest;
            influence = physics_mouseInfluence s * 0.01;
            (targetX, targetY) =
              (if i = 1
               then (targetX + (mouseX - canvasWidth / 2) * influence,
                     targetY + (mouseY - canvasHeight / 2) * influence)
               else (targetX - (mouseX - canvasWidth / 2) * influence,
                     targetY + (mouseY - canvasHeight / 2) * influence));
            targetX = targetX + mouse_vx m * 0.5;
            targetY = targetY + mouse_vy m * 0.5;
            p = heap s point;
            springForceX = - physics_stiffness s * (pt_x p - targetX);
            springForceY = - physics_stiffness s * (pt_y p - targetY);
            velocity = velocity\<lparr>pt_x := pt_x velocity * physics_damping s + springForceX\<rparr>;
            velocity = velocity\<lparr>pt_y := pt_y velocity * physics_damping s + springForceY\<rparr>;
            p = p\<lparr>pt_x := pt_x p + pt_x velocity\<rparr>;
            p = p\<lparr>pt_y := pt_y p + pt_y velocity\<rparr>;
            (p, velocity) = applyBoundaries s p velocity;
            s = s\<lparr>heap := (heap s)(point := p),
                  physics_velocities := (physics_velocities s)[pointIndex := velocity]\<rparr>
        in Some (if particles_enabled s \<and> \<bar>pt_x velocity\<bar> + \<bar>pt_y velocity\<bar> > 0.5
                 then createParticles s (pt_x p) (pt_y p) 1
                 else s))))))"

text \<open>\<^verbatim>\<open>for (let i = 1; i <= 2; i++)\<close>\<close>

function updatePhysics_loop :: "nat \<Rightarrow> reactor \<Rightarrow> reactor option" where
  "updatePhysics_loop i s =
     (if i \<le> 2
      then (case updatePhysics_body i s of
              None \<Rightarrow> None
            | Some s' \<Rightarrow> updatePhysics_loop (Suc i) s')
      else Some s)"
  by pat_completeness auto
termination
  by (relation "measure (\<lambda>(i, s). 3 - i)") auto

declare updatePhysics_loop.simps [simp del]

definition updatePhysics :: "reactor \<Rightarrow> reactor option" where
  "updatePhysics s =
     (if \<not> physics_enabled s then Some s
      else case updatePhysics_loop 1 s of
             None \<Rightarrow> None
           | Some s' \<Rightarrow> updateParticles s')"

text \<open>\<^verbatim>\<open>animate\<close> for a number of frames, with no input event in between; rendering
  writes none of the fields modelled here.\<close>

fun animate :: "nat \<Rightarrow> reactor \<Rightarrow> reactor option" where
  "animate 0 s = Some s"
| "animate (Suc n) s = (case updatePhysics s of None \<Rightarrow> None | Some s' \<Rightarrow> animate n s')"

subsection \<open>Point selection\<close>

text \<open>The result is \<open>Some None\<close> for \<^verbatim>\<open>null\<close> and \<open>Some (Some r)\<close> for the object \<open>r\<close>.\<close>

function getNearestControlPoint_loop ::
  "nat \<Rightarrow> reactor \<Rightarrow> real \<Rightarrow> real \<Rightarrow> real \<Rightarrow> ref option option" where
  "getNearestControlPoint_loop i s x y threshold =
     (if i \<le> 2
      then (case controlPoints s of None \<Rightarrow> None | Some cps \<Rightarrow>
           (case lookup cps i of None \<Rightarrow> None | Some point \<Rightarrow>
              if sqrt ((pt_x (heap s point) - x) ^ 2 + (pt_y (heap s point) - y) ^ 2) < threshold
              then Some (Some point)
              else getNearestControlPoint_loop (Suc i) s x y threshold))
      else Some None)"
  by pat_completeness auto
termination
  by (relation "measure (\<lambda>(i, s, x, y, threshold). 3 - i)") auto

declare getNearestControlPoint_loop.simps [simp del]

definition getNearestControlPoint :: "reactor \<Rightarrow> real \<Rightarrow> real \<Rightarrow> real \<Rightarrow> ref option option" where
  "getNearestControlPoint s x y threshold = getNearestControlPoint_loop 1 s x y threshold"

subsection \<open>Canvas size and rest pose\<close>

text \<open>\<^verbatim>\<open>JSON.parse(JSON.stringify(this.initialPoints))\<close> assigned to
  \<^verbatim>\<open>this.controlPoints\<close>: one fresh object for each rest-pose point.\<close>

definition cloneInitialPoints :: "reactor \<Rightarrow> reactor" where
  "cloneInitialPoints s =
     (let n = length (initialPoints s);
          a = next_ref s
      in s\<lparr>heap := (\<lambda>r. if a \<le> r \<and> r < a + n then initialPoints s ! (r - a) else heap s r),
            next_ref := a + n,
            controlPoints := Some [a ..< a + n]\<rparr>)"

definition calculateInitialPoints :: "reactor \<Rightarrow> reactor" where
  "calculateInitialPoints s =
     (let width = canvas_width s / dpi s;
          height = canvas_height s / dpi s;
          s = s\<lparr>initialPoints :=
                  [\<lparr>pt_x = width * 0.15, pt_y = height * 0.6\<rparr>,
                   \<lparr>pt_x = width * 0.35, pt_y = height * 0.2\<rparr>,
                   \<lparr>pt_x = width * 0.65, pt_y = height * 0.2\<rparr>,
                   \<lparr>pt_x = width * 0.85, pt_y = height * 0.6\<rparr>]\<rparr>
      in if controlPoints s = None then cloneInitialPoints s else s)"

text \<open>
  What \<^verbatim>\<open>canvas.width\<close> or \<^verbatim>\<open>canvas.height\<close> holds after the number \<open>v\<close> has been assigned
  to it.  The attribute is an unsigned long: \<open>v\<close> is truncated towards zero and reduced
  modulo \<open>2\<^sup>3\<^sup>2\<close>, and a result above 2147483647 is replaced by the default \<open>dflt\<close> of the
  attribute (300 for the width, 150 for the height).
\<close>

definition canvasSize :: "real \<Rightarrow> real \<Rightarrow> real" where
  "canvasSize dflt v =
     (let n = (if v < 0 then \<lceil>v\<rceil> else \<lfloor>v\<rfloor>) mod 2 ^ 32
      in if n > 2147483647 then dflt else of_int n)"

text \<open>\<open>clientWidth\<close> is \<^verbatim>\<open>this.canvas.parentElement.clientWidth\<close>.\<close>

definition resizeCanvas :: "real \<Rightarrow> reactor \<Rightarrow> reactor" where
  "resizeCanvas clientWidth s =
     (let s = s\<lparr>canvas_width := canvasSize 300 clientWidth\<rparr>;
          s = s\<lparr>canvas_height := canvasSize 150 600\<rparr>;
          s = s\<lparr>canvas_width := canvasSize 300 (canvas_width s * dpi s)\<rparr>;
          s = s\<lparr>canvas_height := canvasSize 150 (canvas_height s * dpi s)\<rparr>
      in if \<not> (case mouse s of None \<Rightarrow> False | Some m \<Rightarrow> isDown m)
         then calculateInitialPoints s
         else s)"

subsection \<open>A concrete reactor\<close>

text \<open>
  A reactor as the constructor leaves it for a container 1000 wide at pixel ratio 1: the
  canvas is 1000 by 600, the control points are four fresh objects at the rest pose,
  and the pointer starts at the centre.
\<close>

definition rest1000 :: "point list" where
  "rest1000 = [\<lparr>pt_x = 150, pt_y = 360\<rparr>, \<lparr>pt_x = 350, pt_y = 120\<rparr>,
               \<lparr>pt_x = 650, pt_y = 120\<rparr>, \<lparr>pt_x = 850, pt_y = 360\<rparr>]"

definition palette :: "string list" where
  "palette = [''#06b6d4'', ''#8b5cf6'', ''#3b82f6'', ''#10b981'']"

definition mouse0 :: mouse where
  "mouse0 = \<lparr> mouse_x = 500, mouse_y = 300, mouse_px = 0, mouse_py = 0,
               mouse_vx = 0, mouse_vy = 0, isDown = False, targetPoint = None \<rparr>"

definition reactor0 :: reactor where
  "reactor0 = \<lparr> canvas_width = 1000, canvas_height = 600, devicePixelRatio = 1,
                 heap = (\<lambda>r. rest1000 ! r), next_ref = 4,
                 initialPoints = rest1000,
                 controlPoints = Some [0, 1, 2, 3],
                 physics_enabled = True, physics_stiffness = 0.05, physics_damping = 0.90,
                 physics_mouseInfluence = 0.5,
                 physics_velocities = [\<lparr>pt_x = 0, pt_y = 0\<rparr>, \<lparr>pt_x = 0, pt_y = 0\<rparr>],
                 mouse = Some mouse0,
                 particles_enabled = True, particles_list = [], particles_colors = palette,
                 rand = (\<lambda>n. 0), Math_cos = cos, Math_sin = sin \<rparr>"

text \<open>The same reactor with all four control points at one place.\<close>

definition reactor_flat :: reactor where
  "reactor_flat = reactor0\<lparr>heap := (\<lambda>r. \<lparr>pt_x = 200, pt_y = 100\<rparr>)\<rparr>"

text \<open>Two particles: the first expires at the next update, the second lives on.\<close>

definition particle_a :: particle where
  "particle_a = \<lparr> par_x = 10, par_y = 20, par_vx = 1, par_vy = 2, life = 0.02, decay = 0.03,
                   par_size = 3, color = Some ''#06b6d4'', rotation = 0 \<rparr>"

definition particle_b :: particle where
  "particle_b = \<lparr> par_x = 50, par_y = 60, par_vx = 0, par_vy = 0, life = 0.5, decay = 0.01,
                   par_size = 4, color = Some ''#10b981'', rotation = 1 \<rparr>"

definition reactor_sparks :: reactor where
  "reactor_sparks = reactor0\<lparr>particles_list := [particle_a, particle_b]\<rparr>"


text \<open>The hypotheses under which a movable point \<open>i\<close> stays at rest, as one predicate: the shape of the
  state, the point at its rest pose with zero velocity, the pointer at the centre and still, the rest
  pose within the margins.\<close>

definition rest_invariant :: "nat \<Rightarrow> ref list \<Rightarrow> mouse \<Rightarrow> reactor \<Rightarrow> bool" where
  "rest_invariant i cps m s \<longleftrightarrow>
     controlPoints s = Some cps \<and> length cps = 4 \<and> distinct cps \<and>
     length (initialPoints s) = 4 \<and> length (physics_velocities s) = 2 \<and> mouse s = Some m \<and>
     heap s (cps ! i) = initialPoints s ! i \<and>
     physics_velocities s ! (i - 1) = \<lparr>pt_x = 0, pt_y = 0\<rparr> \<and>
     mouse_x m / dpi s = canvas_width s / dpi s / 2 \<and>
     mouse_y m / dpi s = canvas_height s / dpi s / 2 \<and>
     mouse_vx m = 0 \<and> mouse_vy m = 0 \<and>
     30 \<le> pt_x (initialPoints s ! i) \<and> pt_x (initialPoints s ! i) \<le> canvas_width s / dpi s - 30 \<and>
     30 \<le> pt_y (initialPoints s ! i) \<and> pt_y (initialPoints s ! i) \<le> canvas_height s / dpi s - 30"

text \<open>Physics paused while \<open>P1\<close>, with velocity (5, 5), is held by the pointer.\<close>

definition reactor_paused :: reactor where
  "reactor_paused =
     reactor0\<lparr>physics_enabled := False,
              physics_velocities := [\<lparr>pt_x = 5, pt_y = 5\<rparr>, \<lparr>pt_x = 0, pt_y = 0\<rparr>],
              mouse := Some (mouse0\<lparr>isDown := True, targetPoint := Some 1\<rparr>)\<rparr>"

text \<open>The same with physics running.\<close>

definition reactor_held :: reactor where
  "reactor_held = reactor_paused\<lparr>physics_enabled := True\<rparr>"

text \<open>\<open>P2\<close> pulled away from its rest pose, the pointer up.\<close>

definition reactor_pulled :: reactor where
  "reactor_pulled = reactor0\<lparr>heap := (heap reactor0)(2 := \<lparr>pt_x = 700, pt_y = 200\<rparr>)\<rparr>"


text \<open>The reactor on a display of pixel ratio 1.5.\<close>

definition reactor_hidpi :: reactor where
  "reactor_hidpi = reactor0\<lparr>devicePixelRatio := 1.5\<rparr>"

subsection \<open>Reading the control points\<close>

lemma lookup_in_range [simp]: "i < length xs \<Longrightarrow> lookup xs i = Some (xs ! i)"
  by (simp add: lookup_def)

lemma lookup_out_of_range [simp]: "length xs \<le> i \<Longrightarrow> lookup xs i = None"
  by (simp add: lookup_def)

lemma controlPoint_Some:
  "controlPoints s = Some cps \<Longrightarrow> i < length cps \<Longrightarrow> controlPoint s i = Some (heap s (cps ! i))"
  by (simp add: controlPoint_def)

lemma point_eqI: "pt_x p = pt_x q \<Longrightarrow> pt_y p = pt_y q \<Longrightarrow> (p :: point) = q"
  by simp

subsection \<open>The curve evaluator\<close>

text \<open>
  C1.  For any four control points the curve evaluated at the parameter endpoints is
  the endpoint itself: \<open>calculateBezierPoint 0\<close> is the point \<open>P0\<close> and
  \<open>calculateBezierPoint 1\<close> is the point \<open>P3\<close>, in both coordinates.
\<close>

theorem calculateBezierPoint_endpoints:
  assumes "controlPoints s = Some cps" and "length cps = 4"
  shows "calculateBezierPoint s 0 = Some (heap s (cps ! 0)) \<and>
         calculateBezierPoint s 1 = Some (heap s (cps ! 3))"
  using assms by (simp add: calculateBezierPoint_def controlPoint_Some)

theorem calculateBezierPoint_endpoints_witness:
  "controlPoints reactor0 = Some [0, 1, 2, 3] \<and> length [0, 1, 2, 3 :: ref] = 4 \<and>
   calculateBezierPoint reactor0 0 = Some \<lparr>pt_x = 150, pt_y = 360\<rparr> \<and>
   calculateBezierPoint reactor0 1 = Some \<lparr>pt_x = 850, pt_y = 360\<rparr>"
  using calculateBezierPoint_endpoints [of reactor0 "[0, 1, 2, 3]"]
  by (simp add: reactor0_def rest1000_def)

lemma calculateBezierPoint_closed_form:
  assumes "controlPoints s = Some cps" and "length cps = 4"
  shows "calculateBezierPoint s t =
     Some \<lparr> pt_x = (1 - t) ^ 3 * pt_x (heap s (cps ! 0)) + 3 * (1 - t)\<^sup>2 * t * pt_x (heap s (cps ! 1))
                  + 3 * (1 - t) * t\<^sup>2 * pt_x (heap s (cps ! 2)) + t ^ 3 * pt_x (heap s (cps ! 3)),
            pt_y = (1 - t) ^ 3 * pt_y (heap s (cps ! 0)) + 3 * (1 - t)\<^sup>2 * t * pt_y (heap s (cps ! 1))
                  + 3 * (1 - t) * t\<^sup>2 * pt_y (heap s (cps ! 2)) + t ^ 3 * pt_y (heap s (cps ! 3)) \<rparr>"
  using assms
  by (simp add: calculateBezierPoint_def controlPoint_Some Let_def power2_eq_square power3_eq_cube)

lemma calculateBezierTangent_closed_form:
  assumes "controlPoints s = Some cps" and "length cps = 4"
  shows "calculateBezierTangent s t =
     Some \<lparr> pt_x = 3 * (1 - t)\<^sup>2 * (pt_x (heap s (cps ! 1)) - pt_x (heap s (cps ! 0)))
                  + 6 * (1 - t) * t * (pt_x (heap s (cps ! 2)) - pt_x (heap s (cps ! 1)))
                  + 3 * t\<^sup>2 * (pt_x (heap s (cps ! 3)) - pt_x (heap s (cps ! 2))),
            pt_y = 3 * (1 - t)\<^sup>2 * (pt_y (heap s (cps ! 1)) - pt_y (heap s (cps ! 0)))
                  + 6 * (1 - t) * t * (pt_y (heap s (cps ! 2)) - pt_y (heap s (cps ! 1)))
                  + 3 * t\<^sup>2 * (pt_y (heap s (cps ! 3)) - pt_y (heap s (cps ! 2))) \<rparr>"
  using assms
  by (simp add: calculateBezierTangent_def controlPoint_Some Let_def power2_eq_square)

lemma cubic_has_derivative:
  fixes a b c d :: real
  shows "((\<lambda>t. (1 - t) ^ 3 * a + 3 * (1 - t)\<^sup>2 * t * b + 3 * (1 - t) * t\<^sup>2 * c + t ^ 3 * d)
          has_real_derivative
          (3 * (1 - t)\<^sup>2 * (b - a) + 6 * (1 - t) * t * (c - b) + 3 * t\<^sup>2 * (d - c))) (at t)"
  by (auto intro!: derivative_eq_intros simp: algebra_simps power2_eq_square power3_eq_cube)

text \<open>
  C7.  For every real \<open>t\<close> and any four control points, \<open>calculateBezierTangent t\<close> is
  \<open>3(1-t)\<^sup>2(P1-P0) + 6(1-t)t(P2-P1) + 3t\<^sup>2(P3-P2)\<close> on each axis, and that is the
  derivative with respect to the parameter of the polynomial that
  \<open>calculateBezierPoint\<close> computes.  When the adjacent control points coincide the
  function returns the zero vector; it does not fail.
\<close>

theorem calculateBezierTangent_derivative:
  assumes "controlPoints s = Some cps" and "length cps = 4"
  shows "calculateBezierTangent s t =
           Some \<lparr> pt_x = 3 * (1 - t)\<^sup>2 * (pt_x (heap s (cps ! 1)) - pt_x (heap s (cps ! 0)))
                        + 6 * (1 - t) * t * (pt_x (heap s (cps ! 2)) - pt_x (heap s (cps ! 1)))
                        + 3 * t\<^sup>2 * (pt_x (heap s (cps ! 3)) - pt_x (heap s (cps ! 2))),
                  pt_y = 3 * (1 - t)\<^sup>2 * (pt_y (heap s (cps ! 1)) - pt_y (heap s (cps ! 0)))
                        + 6 * (1 - t) * t * (pt_y (heap s (cps ! 2)) - pt_y (heap s (cps ! 1)))
                        + 3 * t\<^sup>2 * (pt_y (heap s (cps ! 3)) - pt_y (heap s (cps ! 2))) \<rparr> \<and>
         (\<forall>t'. calculateBezierPoint s t' \<noteq> None) \<and>
         ((\<lambda>t'. pt_x (the (calculateBezierPoint s t'))) has_real_derivative
            pt_x (the (calculateBezierTangent s t))) (at t) \<and>
         ((\<lambda>t'. pt_y (the (calculateBezierPoint s t'))) has_real_derivative
            pt_y (the (calculateBezierTangent s t))) (at t) \<and>
         (heap s (cps ! 0) = heap s (cps ! 1) \<and> heap s (cps ! 1) = heap s (cps ! 2) \<and>
          heap s (cps ! 2) = heap s (cps ! 3) \<longrightarrow>
            calculateBezierTangent s t = Some \<lparr>pt_x = 0, pt_y = 0\<rparr>)"
proof -
  note P = calculateBezierPoint_closed_form [OF assms]
  note T = calculateBezierTangent_closed_form [OF assms]
  have dx: "((\<lambda>t'. pt_x (the (calculateBezierPoint s t'))) has_real_derivative
            pt_x (the (calculateBezierTangent s t))) (at t)"
    unfolding P T option.sel point.select_convs by (rule cubic_has_derivative)
  have dy: "((\<lambda>t'. pt_y (the (calculateBezierPoint s t'))) has_real_derivative
            pt_y (the (calculateBezierTangent s t))) (at t)"
    unfolding P T option.sel point.select_convs by (rule cubic_has_derivative)
  have flat: "heap s (cps ! 0) = heap s (cps ! 1) \<and> heap s (cps ! 1) = heap s (cps ! 2) \<and>
          heap s (cps ! 2) = heap s (cps ! 3) \<longrightarrow>
            calculateBezierTangent s t = Some \<lparr>pt_x = 0, pt_y = 0\<rparr>"
    unfolding T by simp
  show ?thesis using T P dx dy flat by simp
qed

theorem calculateBezierTangent_derivative_witness:
  "controlPoints reactor0 = Some [0, 1, 2, 3] \<and> length [0, 1, 2, 3 :: ref] = 4 \<and>
   calculateBezierTangent reactor0 (1 / 2) = Some \<lparr>pt_x = 750, pt_y = 0\<rparr> \<and>
   ((\<lambda>t'. pt_x (the (calculateBezierPoint reactor0 t'))) has_real_derivative 750) (at (1 / 2)) \<and>
   ((\<lambda>t'. pt_y (the (calculateBezierPoint reactor0 t'))) has_real_derivative 0) (at (1 / 2)) \<and>
   controlPoints reactor_flat = Some [0, 1, 2, 3] \<and>
   heap reactor_flat 0 = heap reactor_flat 1 \<and> heap reactor_flat 1 = heap reactor_flat 2 \<and>
   heap reactor_flat 2 = heap reactor_flat 3 \<and>
   calculateBezierTangent reactor_flat (1 / 2) = Some \<lparr>pt_x = 0, pt_y = 0\<rparr>"
proof -
  have c0: "controlPoints reactor0 = Some [0, 1, 2, 3]" by (simp add: reactor0_def)
  have cf: "controlPoints reactor_flat = Some [0, 1, 2, 3]"
    by (simp add: reactor_flat_def reactor0_def)
  have len: "length [0, 1, 2, 3 :: ref] = 4" by simp
  have t0: "calculateBezierTangent reactor0 (1 / 2) = Some \<lparr>pt_x = 750, pt_y = 0\<rparr>"
    by (simp add: calculateBezierTangent_def controlPoint_def reactor0_def rest1000_def)
  from calculateBezierTangent_derivative [OF c0 len, of "1 / 2"]
       calculateBezierTangent_derivative [OF cf len, of "1 / 2"]
  show ?thesis unfolding t0 by (simp add: c0 cf reactor_flat_def)
qed

subsection \<open>The boundary clamp\<close>

lemma applyBoundaries_x:
  "pt_x (fst (applyBoundaries s p v)) =
     (let w = canvas_width s / dpi s;
          x1 = (if pt_x p < 30 then 30 else pt_x p)
      in if x1 > w - 30 then w - 30 else x1)"
  by (simp add: applyBoundaries_def Let_def split_beta)

lemma applyBoundaries_y:
  "pt_y (fst (applyBoundaries s p v)) =
     (let h = canvas_height s / dpi s;
          y1 = (if pt_y p < 30 then 30 else pt_y p)
      in if y1 > h - 30 then h - 30 else y1)"
  by (simp add: applyBoundaries_def Let_def split_beta)

lemma applyBoundaries_vx:
  "pt_x (snd (applyBoundaries s p v)) =
     (let w = canvas_width s / dpi s;
          x1 = (if pt_x p < 30 then 30 else pt_x p);
          v1 = (if pt_x p < 30 then pt_x v * (- 0.3) else pt_x v)
      in if x1 > w - 30 then v1 * (- 0.3) else v1)"
  by (simp add: applyBoundaries_def Let_def split_beta)

lemma applyBoundaries_vy:
  "pt_y (snd (applyBoundaries s p v)) =
     (let h = canvas_height s / dpi s;
          y1 = (if pt_y p < 30 then 30 else pt_y p);
          v1 = (if pt_y p < 30 then pt_y v * (- 0.3) else pt_y v)
      in if y1 > h - 30 then v1 * (- 0.3) else v1)"
  by (simp add: applyBoundaries_def Let_def split_beta)

text \<open>
  C6.  The boundary clamp is idempotent on the position: for every point, velocity and
  surface size, clamping the clamped point again gives the same position.
\<close>

theorem applyBoundaries_idempotent:
  "(case applyBoundaries s p v of (p', v') \<Rightarrow> fst (applyBoundaries s p' v'))
     = fst (applyBoundaries s p v)"
proof -
  obtain p' v' where pv: "applyBoundaries s p v = (p', v')" by (cases "applyBoundaries s p v")
  have x: "pt_x p' = (let w = canvas_width s / dpi s;
          x1 = (if pt_x p < 30 then 30 else pt_x p)
      in if x1 > w - 30 then w - 30 else x1)"
    using applyBoundaries_x [of s p v] by (simp add: pv)
  have y: "pt_y p' = (let h = canvas_height s / dpi s;
          y1 = (if pt_y p < 30 then 30 else pt_y p)
      in if y1 > h - 30 then h - 30 else y1)"
    using applyBoundaries_y [of s p v] by (simp add: pv)
  have "pt_x (fst (applyBoundaries s p' v')) = pt_x p'"
    unfolding applyBoundaries_x x by (simp add: Let_def)
  moreover have "pt_y (fst (applyBoundaries s p' v')) = pt_y p'"
    unfolding applyBoundaries_y y by (simp add: Let_def)
  ultimately have "fst (applyBoundaries s p' v') = p'" by (rule point_eqI)
  then show ?thesis by (simp add: pv)
qed

text \<open>
  C4.  With a surface at least 60 wide and 60 high, the clamped point lies in
  \<open>[30, width - 30] \<times> [30, height - 30]\<close>.  On an axis where the coordinate was below
  the margin or above the dimension minus the margin, the coordinate becomes that bound
  and the velocity component is multiplied by \<open>-0.3\<close>; on an axis within bounds the
  position and the velocity component are unchanged.
\<close>

theorem applyBoundaries_clamp:
  assumes "60 \<le> canvas_width s / dpi s" and "60 \<le> canvas_height s / dpi s"
  shows "(case applyBoundaries s p v of (p', v') \<Rightarrow>
           30 \<le> pt_x p' \<and> pt_x p' \<le> canvas_width s / dpi s - 30 \<and>
           30 \<le> pt_y p' \<and> pt_y p' \<le> canvas_height s / dpi s - 30 \<and>
           (pt_x p < 30 \<longrightarrow> pt_x p' = 30 \<and> pt_x v' = pt_x v * (- 0.3)) \<and>
           (pt_x p > canvas_width s / dpi s - 30 \<longrightarrow>
              pt_x p' = canvas_width s / dpi s - 30 \<and> pt_x v' = pt_x v * (- 0.3)) \<and>
           (30 \<le> pt_x p \<and> pt_x p \<le> canvas_width s / dpi s - 30 \<longrightarrow>
              pt_x p' = pt_x p \<and> pt_x v' = pt_x v) \<and>
           (pt_y p < 30 \<longrightarrow> pt_y p' = 30 \<and> pt_y v' = pt_y v * (- 0.3)) \<and>
           (pt_y p > canvas_height s / dpi s - 30 \<longrightarrow>
              pt_y p' = canvas_height s / dpi s - 30 \<and> pt_y v' = pt_y v * (- 0.3)) \<and>
           (30 \<le> pt_y p \<and> pt_y p \<le> canvas_height s / dpi s - 30 \<longrightarrow>
              pt_y p' = pt_y p \<and> pt_y v' = pt_y v))"
proof -
  obtain p' v' where pv: "applyBoundaries s p v = (p', v')" by (cases "applyBoundaries s p v")
  have x: "pt_x p' = (let w = canvas_width s / dpi s;
          x1 = (if pt_x p < 30 then 30 else pt_x p)
      in if x1 > w - 30 then w - 30 else x1)"
    using applyBoundaries_x [of s p v] by (simp add: pv)
  have y: "pt_y p' = (let h = canvas_height s / dpi s;
          y1 = (if pt_y p < 30 then 30 else pt_y p)
      in if y1 > h - 30 then h - 30 else y1)"
    using applyBoundaries_y [of s p v] by (simp add: pv)
  have vx: "pt_x v' = (let w = canvas_width s / dpi s;
          x1 = (if pt_x p < 30 then 30 else pt_x p);
          v1 = (if pt_x p < 30 then pt_x v * (- 0.3) else pt_x v)
      in if x1 > w - 30 then v1 * (- 0.3) else v1)"
    using applyBoundaries_vx [of s p v] by (simp add: pv)
  have vy: "pt_y v' = (let h = canvas_height s / dpi s;
          y1 = (if pt_y p < 30 then 30 else pt_y p);
          v1 = (if pt_y p < 30 then pt_y v * (- 0.3) else pt_y v)
      in if y1 > h - 30 then v1 * (- 0.3) else v1)"
    using applyBoundaries_vy [of s p v] by (simp add: pv)
  have X: "30 \<le> pt_x p' \<and> pt_x p' \<le> canvas_width s / dpi s - 30 \<and>
           (pt_x p < 30 \<longrightarrow> pt_x p' = 30 \<and> pt_x v' = pt_x v * (- 0.3)) \<and>
           (pt_x p > canvas_width s / dpi s - 30 \<longrightarrow>
              pt_x p' = canvas_width s / dpi s - 30 \<and> pt_x v' = pt_x v * (- 0.3)) \<and>
           (30 \<le> pt_x p \<and> pt_x p \<le> canvas_width s / dpi s - 30 \<longrightarrow>
              pt_x p' = pt_x p \<and> pt_x v' = pt_x v)"
    unfolding x vx Let_def using assms(1) by auto
  have Y: "30 \<le> pt_y p' \<and> pt_y p' \<le> canvas_height s / dpi s - 30 \<and>
           (pt_y p < 30 \<longrightarrow> pt_y p' = 30 \<and> pt_y v' = pt_y v * (- 0.3)) \<and>
           (pt_y p > canvas_height s / dpi s - 30 \<longrightarrow>
              pt_y p' = canvas_height s / dpi s - 30 \<and> pt_y v' = pt_y v * (- 0.3)) \<and>
           (30 \<le> pt_y p \<and> pt_y p \<le> canvas_height s / dpi s - 30 \<longrightarrow>
              pt_y p' = pt_y p \<and> pt_y v' = pt_y v)"
    unfolding y vy Let_def using assms(2) by auto
  show ?thesis using X Y by (simp add: pv)
qed

lemma reactor0_size: "canvas_width reactor0 / dpi reactor0 = 1000" "canvas_height reactor0 / dpi reactor0 = 600"
  by (simp_all add: reactor0_def dpi_def)

theorem applyBoundaries_clamp_witness:
  "60 \<le> canvas_width reactor0 / dpi reactor0 \<and> 60 \<le> canvas_height reactor0 / dpi reactor0 \<and>
   applyBoundaries reactor0 \<lparr>pt_x = 10, pt_y = 700\<rparr> \<lparr>pt_x = 2, pt_y = 3\<rparr>
     = (\<lparr>pt_x = 30, pt_y = 570\<rparr>, \<lparr>pt_x = - 0.6, pt_y = - 0.9\<rparr>) \<and>
   applyBoundaries reactor0 \<lparr>pt_x = 990, pt_y = 10\<rparr> \<lparr>pt_x = 2, pt_y = 3\<rparr>
     = (\<lparr>pt_x = 970, pt_y = 30\<rparr>, \<lparr>pt_x = - 0.6, pt_y = - 0.9\<rparr>) \<and>
   applyBoundaries reactor0 \<lparr>pt_x = 100, pt_y = 200\<rparr> \<lparr>pt_x = 2, pt_y = 3\<rparr>
     = (\<lparr>pt_x = 100, pt_y = 200\<rparr>, \<lparr>pt_x = 2, pt_y = 3\<rparr>)"
proof -
  have w: "(60::real) \<le> canvas_width reactor0 / dpi reactor0" by (simp add: reactor0_size)
  have h: "(60::real) \<le> canvas_height reactor0 / dpi reactor0" by (simp add: reactor0_size)
  obtain p1 v1 where a1: "applyBoundaries reactor0 \<lparr>pt_x = 10, pt_y = 700\<rparr> \<lparr>pt_x = 2, pt_y = 3\<rparr> = (p1, v1)"
    by (cases "applyBoundaries reactor0 \<lparr>pt_x = 10, pt_y = 700\<rparr> \<lparr>pt_x = 2, pt_y = 3\<rparr>")
  obtain p2 v2 where a2: "applyBoundaries reactor0 \<lparr>pt_x = 990, pt_y = 10\<rparr> \<lparr>pt_x = 2, pt_y = 3\<rparr> = (p2, v2)"
    by (cases "applyBoundaries reactor0 \<lparr>pt_x = 990, pt_y = 10\<rparr> \<lparr>pt_x = 2, pt_y = 3\<rparr>")
  obtain p3 v3 where a3: "applyBoundaries reactor0 \<lparr>pt_x = 100, pt_y = 200\<rparr> \<lparr>pt_x = 2, pt_y = 3\<rparr> = (p3, v3)"
    by (cases "applyBoundaries reactor0 \<lparr>pt_x = 100, pt_y = 200\<rparr> \<lparr>pt_x = 2, pt_y = 3\<rparr>")
  have "p1 = \<lparr>pt_x = 30, pt_y = 570\<rparr> \<and> v1 = \<lparr>pt_x = - 0.6, pt_y = - 0.9\<rparr>"
    using applyBoundaries_clamp [OF w h, of "\<lparr>pt_x = 10, pt_y = 700\<rparr>" "\<lparr>pt_x = 2, pt_y = 3\<rparr>"]
    by (simp add: a1 reactor0_size)
  moreover have "p2 = \<lparr>pt_x = 970, pt_y = 30\<rparr> \<and> v2 = \<lparr>pt_x = - 0.6, pt_y = - 0.9\<rparr>"
    using applyBoundaries_clamp [OF w h, of "\<lparr>pt_x = 990, pt_y = 10\<rparr>" "\<lparr>pt_x = 2, pt_y = 3\<rparr>"]
    by (simp add: a2 reactor0_size)
  moreover have "p3 = \<lparr>pt_x = 100, pt_y = 200\<rparr> \<and> v3 = \<lparr>pt_x = 2, pt_y = 3\<rparr>"
    using applyBoundaries_clamp [OF w h, of "\<lparr>pt_x = 100, pt_y = 200\<rparr>" "\<lparr>pt_x = 2, pt_y = 3\<rparr>"]
    by (simp add: a3 reactor0_size)
  ultimately show ?thesis using w h by (simp add: a1 a2 a3)
qed

subsection \<open>Advancing and retiring particles\<close>

lemma updateParticle_fields:
  "par_x (updateParticle p) = par_x p + par_vx p"
  "par_y (updateParticle p) = par_y p + par_vy p"
  "par_vx (updateParticle p) = par_vx p * 0.98"
  "par_vy (updateParticle p) = (par_vy p + 0.1) * 0.98"
  "life (updateParticle p) = life p - decay p"
  "decay (updateParticle p) = decay p"
  "par_size (updateParticle p) = par_size p"
  "color (updateParticle p) = color p"
  "rotation (updateParticle p) = rotation p + 0.05"
  by (simp_all add: updateParticle_def)

lemma splice_at_update: "k < length ps \<Longrightarrow> splice_at (ps[k := q]) k = take k ps @ drop (Suc k) ps"
  by (simp add: splice_at_def)

lemma updateParticles_loop_prefix:
  "k \<le> length ps \<Longrightarrow>
   updateParticles_loop (int k - 1) ps =
     Some (filter (\<lambda>p. 0 < life p) (map updateParticle (take k ps)) @ drop k ps)"
proof (induction k arbitrary: ps)
  case 0
  then show ?case by (subst updateParticles_loop.simps) simp
next
  case (Suc k)
  then have k: "k < length ps" by simp
  let ?q = "updateParticle (ps ! k)"
  let ?ps' = "if life ?q \<le> 0 then splice_at (ps[k := ?q]) k else ps[k := ?q]"
  have step: "updateParticles_loop (int (Suc k) - 1) ps = updateParticles_loop (int k - 1) ?ps'"
    using k by (subst updateParticles_loop.simps) simp
  have len: "k \<le> length ?ps'" using k by (auto simp: splice_at_update)
  have tk: "take k ?ps' = take k ps" using k by (simp add: splice_at_update)
  have dk: "drop k ?ps' = (if life ?q \<le> 0 then drop (Suc k) ps else ?q # drop (Suc k) ps)"
  proof (cases "life ?q \<le> 0")
    case True
    then show ?thesis using k by (simp add: splice_at_update)
  next
    case False
    then show ?thesis using k by (simp add: upd_conv_take_nth_drop)
  qed
  have "updateParticles_loop (int k - 1) ?ps' =
          Some (filter (\<lambda>p. 0 < life p) (map updateParticle (take k ?ps')) @ drop k ?ps')"
    using Suc.IH [OF len] .
  also have "\<dots> = Some (filter (\<lambda>p. 0 < life p) (map updateParticle (take (Suc k) ps)) @ drop (Suc k) ps)"
    unfolding tk dk using k by (simp add: take_Suc_conv_app_nth)
  finally show ?case using step by simp
qed

lemma updateParticles_filter:
  "updateParticles s =
     Some (s\<lparr>particles_list := filter (\<lambda>p. 0 < life p) (map updateParticle (particles_list s))\<rparr>)"
  using updateParticles_loop_prefix [of "length (particles_list s)" "particles_list s"]
  by (simp add: updateParticles_def)

lemma filter_updateParticle:
  "filter (\<lambda>p. 0 < life p) (map updateParticle ps) =
     map updateParticle (filter (\<lambda>p. 0 < life p - decay p) ps)"
  by (induction ps) (simp_all add: updateParticle_fields)

text \<open>
  C8.  One run of \<open>updateParticles\<close> lowers the life of each particle by exactly its
  decay, so with a positive decay the life strictly decreases; exactly the particles whose
  life after the decrement is at most \<open>0\<close> are removed in that run: every particle left
  has a positive life, and no particle with a positive life after the decrement is
  removed.
\<close>

theorem updateParticles_life:
  "updateParticles s =
     Some (s\<lparr>particles_list := filter (\<lambda>p. 0 < life p) (map updateParticle (particles_list s))\<rparr>) \<and>
   (\<forall>p. life (updateParticle p) = life p - decay p \<and> decay (updateParticle p) = decay p \<and>
        (0 < decay p \<longrightarrow> life (updateParticle p) < life p)) \<and>
   (\<forall>s'. updateParticles s = Some s' \<longrightarrow>
      (\<forall>q \<in> set (particles_list s'). 0 < life q) \<and>
      (\<forall>p \<in> set (particles_list s).
         (0 < life p - decay p \<longrightarrow> updateParticle p \<in> set (particles_list s')) \<and>
         (life p - decay p \<le> 0 \<longrightarrow> updateParticle p \<notin> set (particles_list s'))) \<and>
      length (particles_list s') = length (filter (\<lambda>p. 0 < life p - decay p) (particles_list s)))"
proof (intro conjI allI impI)
  show "updateParticles s =
     Some (s\<lparr>particles_list := filter (\<lambda>p. 0 < life p) (map updateParticle (particles_list s))\<rparr>)"
    by (rule updateParticles_filter)
next
  fix p show "life (updateParticle p) = life p - decay p" by (simp add: updateParticle_fields)
next
  fix p show "decay (updateParticle p) = decay p" by (simp add: updateParticle_fields)
next
  fix p :: particle assume "0 < decay p" then show "life (updateParticle p) < life p"
    by (simp add: updateParticle_fields)
next
  fix s' assume "updateParticles s = Some s'"
  then have s': "particles_list s' = filter (\<lambda>p. 0 < life p) (map updateParticle (particles_list s))"
    by (auto simp: updateParticles_filter)
  show "\<forall>q \<in> set (particles_list s'). 0 < life q" by (simp add: s')
  show "\<forall>p \<in> set (particles_list s).
         (0 < life p - decay p \<longrightarrow> updateParticle p \<in> set (particles_list s')) \<and>
         (life p - decay p \<le> 0 \<longrightarrow> updateParticle p \<notin> set (particles_list s'))"
    by (simp add: s' updateParticle_fields)
  show "length (particles_list s') = length (filter (\<lambda>p. 0 < life p - decay p) (particles_list s))"
    by (simp only: s' filter_updateParticle length_map)
qed

theorem updateParticles_life_witness:
  "particle_a \<in> set (particles_list reactor_sparks) \<and> life particle_a - decay particle_a \<le> 0 \<and>
   particle_b \<in> set (particles_list reactor_sparks) \<and> 0 < life particle_b - decay particle_b \<and>
   0 < decay particle_b \<and>
   updateParticles reactor_sparks
     = Some (reactor_sparks\<lparr>particles_list := [updateParticle particle_b]\<rparr>) \<and>
   life (updateParticle particle_b) = 0.49 \<and> life (updateParticle particle_b) < life particle_b"
proof -
  have a: "life particle_a - decay particle_a \<le> 0" by (simp add: particle_a_def)
  have b: "0 < life particle_b - decay particle_b" "0 < decay particle_b"
          "life particle_b - decay particle_b = 0.49"
    by (simp_all add: particle_b_def)
  have l: "particles_list reactor_sparks = [particle_a, particle_b]"
    by (simp add: reactor_sparks_def)
  show ?thesis
    using updateParticles_life [of reactor_sparks] a b
    by (simp add: l updateParticle_fields)
qed

subsection \<open>Rounding to doubles\<close>

lemma roundTiesToEven_of_int [simp]: "roundTiesToEven (of_int k) = k"
  by (simp add: roundTiesToEven_def)



lemma roundTiesToEven_power [simp]: "roundTiesToEven (2 ^ k) = 2 ^ k"
  using roundTiesToEven_of_int [of "2 ^ k"] by simp

lemma round_binary_zero [simp]: "round_binary p n 0 = 0"
  using roundTiesToEven_of_int [of 0] by (simp add: round_binary_def)




lemma round_double_zero [simp]: "round_double 0 = 0"
  by (simp add: round_double_def)




























subsection \<open>Spawning particles\<close>

lemma pushParticle_eq:
  "pushParticle x y s =
     s\<lparr>rand := (\<lambda>n. rand s (Suc (Suc (Suc (Suc (Suc (Suc (Suc n)))))))),
       particles_list := particles_list s @
         [\<lparr> par_x = x, par_y = y,
            par_vx = round_double (Math_cos s (round_double (round_double (rand s 0 * Math_PI) * 2))
                                    * round_double (round_double (rand s 1 * 3) + 1)),
            par_vy = round_double (Math_sin s (round_double (round_double (rand s 0 * Math_PI) * 2))
                                    * round_double (round_double (rand s 1 * 3) + 1)),
            life = round_double (0.5 + round_double (rand s 2 * 0.5)),
            decay = round_double (round_double 0.01 + round_double (rand s 3 * round_double 0.02)),
            par_size = round_double (2 + round_double (rand s 4 * 4)),
            color = colorAt (particles_colors s)
                      \<lfloor>round_double (rand s 5 * real (length (particles_colors s)))\<rfloor>,
            rotation = round_double (round_double (rand s 6 * Math_PI) * 2) \<rparr>]\<rparr>"
  by (simp add: pushParticle_def Math_random_def Let_def split_beta numeral_eq_Suc)

lemma pushParticle_frame:
  "particles_enabled (pushParticle x y s) = particles_enabled s"
  "particles_colors (pushParticle x y s) = particles_colors s"
  "heap (pushParticle x y s) = heap s"
  "controlPoints (pushParticle x y s) = controlPoints s"
  "initialPoints (pushParticle x y s) = initialPoints s"
  "physics_velocities (pushParticle x y s) = physics_velocities s"
  "mouse (pushParticle x y s) = mouse s"
  "canvas_width (pushParticle x y s) = canvas_width s"
  "canvas_height (pushParticle x y s) = canvas_height s"
  "devicePixelRatio (pushParticle x y s) = devicePixelRatio s"
  "physics_enabled (pushParticle x y s) = physics_enabled s"
  "physics_stiffness (pushParticle x y s) = physics_stiffness s"
  "physics_damping (pushParticle x y s) = physics_damping s"
  "physics_mouseInfluence (pushParticle x y s) = physics_mouseInfluence s"
  "next_ref (pushParticle x y s) = next_ref s"
  "Math_cos (pushParticle x y s) = Math_cos s"
  "Math_sin (pushParticle x y s) = Math_sin s"
  by (simp_all add: pushParticle_eq)










subsection \<open>The physics step\<close>

lemma createParticles_loop_frame:
  assumes "\<And>x y s. f (pushParticle x y s) = f s"
  shows "f (createParticles_loop i count x y s) = f s"
proof (induction i count x y s rule: createParticles_loop.induct)
  case (1 i count x y s)
  show ?case
  proof (cases "i < count")
    case True
    then show ?thesis using "1.IH" assms by (subst createParticles_loop.simps) simp
  next
    case False
    then show ?thesis by (subst createParticles_loop.simps) simp
  qed
qed

lemma createParticles_frame:
  assumes "\<And>x y s. f (pushParticle x y s) = f s"
  shows "f (createParticles s x y count) = f s"
  using createParticles_loop_frame [of f, OF assms] by (simp add: createParticles_def)

lemma createParticles_fields:
  "heap (createParticles s x y n) = heap s"
  "controlPoints (createParticles s x y n) = controlPoints s"
  "initialPoints (createParticles s x y n) = initialPoints s"
  "physics_velocities (createParticles s x y n) = physics_velocities s"
  "mouse (createParticles s x y n) = mouse s"
  "canvas_width (createParticles s x y n) = canvas_width s"
  "canvas_height (createParticles s x y n) = canvas_height s"
  "devicePixelRatio (createParticles s x y n) = devicePixelRatio s"
  "physics_enabled (createParticles s x y n) = physics_enabled s"
  "physics_stiffness (createParticles s x y n) = physics_stiffness s"
  "physics_damping (createParticles s x y n) = physics_damping s"
  "physics_mouseInfluence (createParticles s x y n) = physics_mouseInfluence s"
  "particles_enabled (createParticles s x y n) = particles_enabled s"
  "particles_colors (createParticles s x y n) = particles_colors s"
  "next_ref (createParticles s x y n) = next_ref s"
  by (rule createParticles_frame, simp add: pushParticle_frame)+

lemma createParticles_zero: "createParticles s x y 0 = s"
  by (simp add: createParticles_def createParticles_loop.simps)

lemma updatePhysics_body_held:
  assumes "controlPoints s = Some cps" and "i < length cps"
    and "i - 1 < length (physics_velocities s)" and "mouse s = Some m"
    and "targetPoint m = Some (cps ! i)"
  shows "updatePhysics_body i s =
           Some (s\<lparr>physics_velocities := (physics_velocities s)[i - 1 := \<lparr>pt_x = 0, pt_y = 0\<rparr>]\<rparr>)"
  using assms by (simp add: updatePhysics_body_def)

lemma updatePhysics_body_free:
  assumes "controlPoints s = Some cps" and "i < length cps"
    and "i - 1 < length (physics_velocities s)" and "mouse s = Some m"
    and "i < length (initialPoints s)"
    and "targetPoint m \<noteq> Some (cps ! i)"
  shows "\<exists>p v n. updatePhysics_body i s =
           Some (createParticles
                   (s\<lparr>heap := (heap s)(cps ! i := p),
                      physics_velocities := (physics_velocities s)[i - 1 := v]\<rparr>)
                   (pt_x p) (pt_y p) n)"
proof -
  have "\<exists>p v c. updatePhysics_body i s =
           Some (if c then createParticles
                   (s\<lparr>heap := (heap s)(cps ! i := p),
                      physics_velocities := (physics_velocities s)[i - 1 := v]\<rparr>)
                   (pt_x p) (pt_y p) 1
                 else s\<lparr>heap := (heap s)(cps ! i := p),
                      physics_velocities := (physics_velocities s)[i - 1 := v]\<rparr>)"
    using assms by (simp add: updatePhysics_body_def Let_def split_beta del: One_nat_def) blast
  then obtain p v c where b: "updatePhysics_body i s =
           Some (if c then createParticles
                   (s\<lparr>heap := (heap s)(cps ! i := p),
                      physics_velocities := (physics_velocities s)[i - 1 := v]\<rparr>)
                   (pt_x p) (pt_y p) 1
                 else s\<lparr>heap := (heap s)(cps ! i := p),
                      physics_velocities := (physics_velocities s)[i - 1 := v]\<rparr>)"
    by blast
  show ?thesis
  proof (cases c)
    case True
    with b show ?thesis by (simp only: if_True) blast
  next
    case False
    with b have "updatePhysics_body i s =
           Some (createParticles
                   (s\<lparr>heap := (heap s)(cps ! i := p),
                      physics_velocities := (physics_velocities s)[i - 1 := v]\<rparr>)
                   (pt_x p) (pt_y p) 0)"
      by (simp only: if_False createParticles_zero)
    then show ?thesis by blast
  qed
qed

lemma updatePhysics_body_returns:
  assumes "controlPoints s = Some cps" and "i < length cps"
    and "i - 1 < length (physics_velocities s)" and "mouse s = Some m"
    and "i < length (initialPoints s)"
  shows "\<exists>s'. updatePhysics_body i s = Some s'"
proof (cases "targetPoint m = Some (cps ! i)")
  case True
  then show ?thesis using updatePhysics_body_held [OF assms(1-4)] by simp
next
  case False
  then show ?thesis using updatePhysics_body_free [OF assms] by blast
qed

lemma updatePhysics_body_dest:
  assumes "updatePhysics_body i s = Some s'"
  obtains cps m where "controlPoints s = Some cps" and "i < length cps"
    and "i - 1 < length (physics_velocities s)" and "mouse s = Some m"
    and "targetPoint m \<noteq> Some (cps ! i) \<longrightarrow> i < length (initialPoints s)"
proof -
  obtain cps where c: "controlPoints s = Some cps"
    using assms by (cases "controlPoints s") (simp_all add: updatePhysics_body_def Let_def)
  have i: "i < length cps"
    using assms c by (cases "i < length cps") (simp_all add: updatePhysics_body_def Let_def)
  have v: "i - 1 < length (physics_velocities s)"
    using assms c i
    by (cases "i - 1 < length (physics_velocities s)") (simp_all add: updatePhysics_body_def Let_def)
  obtain m where m: "mouse s = Some m"
    using assms c i v by (cases "mouse s") (simp_all add: updatePhysics_body_def Let_def)
  have r: "i < length (initialPoints s)" if "targetPoint m \<noteq> Some (cps ! i)"
    using assms c i v m that
    by (cases "i < length (initialPoints s)") (simp_all add: updatePhysics_body_def Let_def)
  show thesis using that c i v m r by blast
qed

lemma updatePhysics_body_shape:
  assumes "updatePhysics_body i s = Some s'"
  shows "(\<exists>v. s' = s\<lparr>physics_velocities := (physics_velocities s)[i - 1 := v]\<rparr>) \<or>
         (\<exists>cps p v n. controlPoints s = Some cps \<and> i < length cps \<and>
            s' = createParticles
                   (s\<lparr>heap := (heap s)(cps ! i := p),
                      physics_velocities := (physics_velocities s)[i - 1 := v]\<rparr>)
                   (pt_x p) (pt_y p) n)"
proof -
  from assms obtain cps m where c: "controlPoints s = Some cps" and i: "i < length cps"
    and v: "i - 1 < length (physics_velocities s)" and m: "mouse s = Some m"
    and r: "targetPoint m \<noteq> Some (cps ! i) \<longrightarrow> i < length (initialPoints s)"
    by (rule updatePhysics_body_dest)
  show ?thesis
  proof (cases "targetPoint m = Some (cps ! i)")
    case True
    then show ?thesis using updatePhysics_body_held [OF c i v m] assms by auto
  next
    case False
    with r have "i < length (initialPoints s)" by simp
    from updatePhysics_body_free [OF c i v m this False] assms c i show ?thesis by auto
  qed
qed

lemma updatePhysics_body_keeps:
  assumes "updatePhysics_body i s = Some s'"
    and "\<And>s h. f (s\<lparr>heap := h\<rparr>) = f s"
    and "\<And>s v. f (s\<lparr>physics_velocities := v\<rparr>) = f s"
    and "\<And>x y s. f (pushParticle x y s) = f s"
  shows "f s' = f s"
  using updatePhysics_body_shape [OF assms(1)]
  by (auto simp: createParticles_frame [of f, OF assms(4)] assms(2,3))

lemma updatePhysics_body_heap:
  assumes "updatePhysics_body i s = Some s'" and "controlPoints s = Some cps" and "r \<noteq> cps ! i"
  shows "heap s' r = heap s r"
  using updatePhysics_body_shape [OF assms(1)] assms(2,3)
  by (auto simp: createParticles_fields)

lemma updatePhysics_body_velocities:
  assumes "updatePhysics_body i s = Some s'"
  shows "length (physics_velocities s') = length (physics_velocities s)"
    and "j \<noteq> i - 1 \<Longrightarrow> physics_velocities s' ! j = physics_velocities s ! j"
  using updatePhysics_body_shape [OF assms(1)]
  by (auto simp: createParticles_fields)

lemma applyBoundaries_inside:
  assumes "30 \<le> pt_x p" and "pt_x p \<le> canvas_width s / dpi s - 30"
    and "30 \<le> pt_y p" and "pt_y p \<le> canvas_height s / dpi s - 30"
  shows "applyBoundaries s p v = (p, v)"
  using assms by (simp add: applyBoundaries_def)

lemma updatePhysics_body_rest:
  assumes c: "controlPoints s = Some cps" and i: "i < length cps"
    and v: "i - 1 < length (physics_velocities s)" and m: "mouse s = Some m"
    and r: "i < length (initialPoints s)"
    and p: "heap s (cps ! i) = initialPoints s ! i"
    and z: "physics_velocities s ! (i - 1) = \<lparr>pt_x = 0, pt_y = 0\<rparr>"
    and mx: "mouse_x m / dpi s = canvas_width s / dpi s / 2"
    and my: "mouse_y m / dpi s = canvas_height s / dpi s / 2"
    and mv: "mouse_vx m = 0" "mouse_vy m = 0"
    and b: "30 \<le> pt_x (initialPoints s ! i)" "pt_x (initialPoints s ! i) \<le> canvas_width s / dpi s - 30"
           "30 \<le> pt_y (initialPoints s ! i)" "pt_y (initialPoints s ! i) \<le> canvas_height s / dpi s - 30"
  shows "updatePhysics_body i s = Some s"
proof (cases "targetPoint m = Some (cps ! i)")
  case True
  have "(physics_velocities s)[i - 1 := \<lparr>pt_x = 0, pt_y = 0\<rparr>] = physics_velocities s"
    using z by (metis list_update_id)
  then show ?thesis using updatePhysics_body_held [OF c i v m True] by simp
next
  case False
  have ab: "applyBoundaries s (initialPoints s ! i) \<lparr>pt_x = 0, pt_y = 0\<rparr>
              = (initialPoints s ! i, \<lparr>pt_x = 0, pt_y = 0\<rparr>)"
    using b by (rule applyBoundaries_inside)
  have l: "(physics_velocities s)[i - 1 := \<lparr>pt_x = 0, pt_y = 0\<rparr>] = physics_velocities s"
    using z by (metis list_update_id)
  have h: "(heap s)(cps ! i := initialPoints s ! i) = heap s"
    using p by (metis fun_upd_triv)
  show ?thesis
    using c i v m r False p z mx my mv ab l h
    by (cases "i = 1") (auto simp: updatePhysics_body_def Let_def)
qed

lemma updatePhysics_loop_unroll:
  "updatePhysics_loop 1 s =
     (case updatePhysics_body 1 s of None \<Rightarrow> None | Some s1 \<Rightarrow> updatePhysics_body 2 s1)"
proof -
  have 3: "updatePhysics_loop (Suc (Suc (Suc 0))) s2 = Some s2" for s2
    by (subst updatePhysics_loop.simps) simp
  have 2: "updatePhysics_loop (Suc (Suc 0)) s1 = updatePhysics_body (Suc (Suc 0)) s1" for s1
    by (subst updatePhysics_loop.simps) (simp add: 3 split: option.splits)
  show ?thesis
    by (subst updatePhysics_loop.simps) (simp add: 2 eval_nat_numeral split: option.splits)
qed

lemma updatePhysics_unroll:
  "updatePhysics s =
     (if \<not> physics_enabled s then Some s
      else case updatePhysics_body 1 s of None \<Rightarrow> None | Some s1 \<Rightarrow>
          (case updatePhysics_body 2 s1 of None \<Rightarrow> None | Some s2 \<Rightarrow>
             Some (s2\<lparr>particles_list :=
                        filter (\<lambda>p. 0 < life p) (map updateParticle (particles_list s2))\<rparr>)))"
  unfolding updatePhysics_def updatePhysics_loop_unroll updateParticles_filter
  by (simp split: option.splits)

lemma updatePhysics_body_fields:
  assumes "updatePhysics_body i s = Some s'"
  shows "controlPoints s' = controlPoints s"
    and "initialPoints s' = initialPoints s"
    and "mouse s' = mouse s"
    and "canvas_width s' = canvas_width s"
    and "canvas_height s' = canvas_height s"
    and "devicePixelRatio s' = devicePixelRatio s"
    and "physics_enabled s' = physics_enabled s"
    and "physics_stiffness s' = physics_stiffness s"
    and "physics_damping s' = physics_damping s"
    and "physics_mouseInfluence s' = physics_mouseInfluence s"
    and "particles_enabled s' = particles_enabled s"
    and "particles_colors s' = particles_colors s"
    and "next_ref s' = next_ref s"
  by (rule updatePhysics_body_keeps [OF assms]; simp add: pushParticle_frame)+

lemma updatePhysics_steps:
  assumes c: "controlPoints s = Some cps" and l: "length cps = 4"
    and r: "length (initialPoints s) = 4" and v: "length (physics_velocities s) = 2"
    and m: "mouse s = Some m"
  obtains s1 s2 where "updatePhysics_body 1 s = Some s1" and "updatePhysics_body 2 s1 = Some s2"
proof -
  obtain s1 where b1: "updatePhysics_body 1 s = Some s1"
    using updatePhysics_body_returns [OF c, of 1 m] l r v m by auto
  have "controlPoints s1 = Some cps" "mouse s1 = Some m" "length (initialPoints s1) = 4"
       "length (physics_velocities s1) = 2"
    using updatePhysics_body_fields [OF b1] updatePhysics_body_velocities(1) [OF b1] c m r v
    by simp_all
  then obtain s2 where "updatePhysics_body 2 s1 = Some s2"
    using updatePhysics_body_returns [of s1 cps 2 m] l by auto
  with b1 show thesis using that by blast
qed

lemma getNearestControlPoint_unroll:
  assumes "controlPoints s = Some cps" and "2 < length cps"
  shows "getNearestControlPoint s x y threshold =
     Some (if sqrt ((pt_x (heap s (cps ! 1)) - x)\<^sup>2 + (pt_y (heap s (cps ! 1)) - y)\<^sup>2) < threshold
           then Some (cps ! 1)
           else if sqrt ((pt_x (heap s (cps ! 2)) - x)\<^sup>2 + (pt_y (heap s (cps ! 2)) - y)\<^sup>2) < threshold
           then Some (cps ! 2)
           else None)"
proof -
  have 3: "getNearestControlPoint_loop (Suc (Suc (Suc 0))) s x y threshold = Some None"
    by (subst getNearestControlPoint_loop.simps) simp
  have 2: "getNearestControlPoint_loop (Suc (Suc 0)) s x y threshold =
     (if sqrt ((pt_x (heap s (cps ! 2)) - x)\<^sup>2 + (pt_y (heap s (cps ! 2)) - y)\<^sup>2) < threshold
      then Some (Some (cps ! 2)) else Some None)"
    using assms by (subst getNearestControlPoint_loop.simps) (simp add: 3 eval_nat_numeral)
  show ?thesis
    unfolding getNearestControlPoint_def
    using assms by (subst getNearestControlPoint_loop.simps) (simp add: 2 eval_nat_numeral)
qed

text \<open>
  C10.  One run of \<open>updatePhysics\<close> returns and leaves the two endpoints \<open>P0\<close> and
  \<open>P3\<close> where they were: of the control points only \<open>P1\<close> and \<open>P2\<close> can change, and the
  list of control points, the rest pose, the pointer state, the canvas size and the
  physics parameters are untouched.  \<open>getNearestControlPoint\<close> returns \<^verbatim>\<open>null\<close>, \<open>P1\<close>
  or \<open>P2\<close>, never an endpoint, so manual control cannot select one.
\<close>

theorem updatePhysics_endpoints_fixed:
  assumes c: "controlPoints s = Some cps" and l: "length cps = 4" and d: "distinct cps"
    and r: "length (initialPoints s) = 4" and v: "length (physics_velocities s) = 2"
    and m: "mouse s = Some m"
  shows "(\<exists>s'. updatePhysics s = Some s' \<and>
            controlPoints s' = Some cps \<and>
            heap s' (cps ! 0) = heap s (cps ! 0) \<and>
            heap s' (cps ! 3) = heap s (cps ! 3) \<and>
            (\<forall>a. a \<noteq> cps ! 1 \<and> a \<noteq> cps ! 2 \<longrightarrow> heap s' a = heap s a) \<and>
            initialPoints s' = initialPoints s \<and> mouse s' = mouse s \<and>
            canvas_width s' = canvas_width s \<and> canvas_height s' = canvas_height s \<and>
            physics_enabled s' = physics_enabled s \<and>
            physics_stiffness s' = physics_stiffness s \<and>
            physics_damping s' = physics_damping s \<and>
            physics_mouseInfluence s' = physics_mouseInfluence s \<and>
            particles_enabled s' = particles_enabled s) \<and>
         (\<forall>x y threshold.
            (getNearestControlPoint s x y threshold = Some None \<or>
             getNearestControlPoint s x y threshold = Some (Some (cps ! 1)) \<or>
             getNearestControlPoint s x y threshold = Some (Some (cps ! 2))) \<and>
            getNearestControlPoint s x y threshold \<noteq> Some (Some (cps ! 0)) \<and>
            getNearestControlPoint s x y threshold \<noteq> Some (Some (cps ! 3)))"
proof (rule conjI)
  have ne: "cps ! 0 \<noteq> cps ! 1" "cps ! 0 \<noteq> cps ! 2" "cps ! 3 \<noteq> cps ! 1" "cps ! 3 \<noteq> cps ! 2"
    using d l by (simp_all add: nth_eq_iff_index_eq)
  show "\<forall>x y threshold.
            (getNearestControlPoint s x y threshold = Some None \<or>
             getNearestControlPoint s x y threshold = Some (Some (cps ! 1)) \<or>
             getNearestControlPoint s x y threshold = Some (Some (cps ! 2))) \<and>
            getNearestControlPoint s x y threshold \<noteq> Some (Some (cps ! 0)) \<and>
            getNearestControlPoint s x y threshold \<noteq> Some (Some (cps ! 3))"
    using ne l by (simp add: getNearestControlPoint_unroll [OF c])
  show "\<exists>s'. updatePhysics s = Some s' \<and>
            controlPoints s' = Some cps \<and>
            heap s' (cps ! 0) = heap s (cps ! 0) \<and>
            heap s' (cps ! 3) = heap s (cps ! 3) \<and>
            (\<forall>a. a \<noteq> cps ! 1 \<and> a \<noteq> cps ! 2 \<longrightarrow> heap s' a = heap s a) \<and>
            initialPoints s' = initialPoints s \<and> mouse s' = mouse s \<and>
            canvas_width s' = canvas_width s \<and> canvas_height s' = canvas_height s \<and>
            physics_enabled s' = physics_enabled s \<and>
            physics_stiffness s' = physics_stiffness s \<and>
            physics_damping s' = physics_damping s \<and>
            physics_mouseInfluence s' = physics_mouseInfluence s \<and>
            particles_enabled s' = particles_enabled s"
  proof (cases "physics_enabled s")
    case False
    then show ?thesis using c by (simp add: updatePhysics_unroll)
  next
    case True
    obtain s1 s2 where b1: "updatePhysics_body 1 s = Some s1"
      and b2: "updatePhysics_body 2 s1 = Some s2"
      using updatePhysics_steps [OF c l r v m] by blast
    note f1 = updatePhysics_body_fields [OF b1]
    note f2 = updatePhysics_body_fields [OF b2]
    have c1: "controlPoints s1 = Some cps" using f1 c by simp
    have h: "heap s2 a = heap s a" if "a \<noteq> cps ! 1" "a \<noteq> cps ! 2" for a
      using updatePhysics_body_heap [OF b1 c that(1)] updatePhysics_body_heap [OF b2 c1 that(2)]
      by simp
    let ?s' = "s2\<lparr>particles_list :=
                   filter (\<lambda>p. 0 < life p) (map updateParticle (particles_list s2))\<rparr>"
    have u: "updatePhysics s = Some ?s'"
      using True b1 b2 by (simp add: updatePhysics_unroll)
    show ?thesis
      apply (rule exI [of _ ?s'])
      apply (intro conjI allI impI)
      apply (rule u)
      apply (simp_all add: f1 f2 c h h [OF ne(1,2)] h [OF ne(3,4)])
      done
  qed
qed

theorem updatePhysics_endpoints_fixed_witness:
  "controlPoints reactor_pulled = Some [0, 1, 2, 3] \<and> distinct [0, 1, 2, 3 :: ref] \<and>
   length (initialPoints reactor_pulled) = 4 \<and> length (physics_velocities reactor_pulled) = 2 \<and>
   mouse reactor_pulled = Some mouse0 \<and>
   (\<exists>s'. updatePhysics reactor_pulled = Some s' \<and>
      heap s' 0 = \<lparr>pt_x = 150, pt_y = 360\<rparr> \<and> heap s' 3 = \<lparr>pt_x = 850, pt_y = 360\<rparr>) \<and>
   getNearestControlPoint reactor_pulled 150 360 30 \<noteq> Some (Some 0)"
proof -
  have c: "controlPoints reactor_pulled = Some [0, 1, 2, 3]"
    and r: "length (initialPoints reactor_pulled) = 4"
    and v: "length (physics_velocities reactor_pulled) = 2"
    and m: "mouse reactor_pulled = Some mouse0"
    by (simp_all add: reactor_pulled_def reactor0_def rest1000_def)
  have l: "length [0, 1, 2, 3 :: ref] = 4" and d: "distinct [0, 1, 2, 3 :: ref]" by simp_all
  have h: "heap reactor_pulled 0 = \<lparr>pt_x = 150, pt_y = 360\<rparr>"
          "heap reactor_pulled 3 = \<lparr>pt_x = 850, pt_y = 360\<rparr>"
    by (simp_all add: reactor_pulled_def reactor0_def rest1000_def)
  show ?thesis
    using updatePhysics_endpoints_fixed [OF c l d r v m] c d r v m h
    by auto
qed

text \<open>
  C2 (amended).  While physics is enabled, for a movable point that is the pointer's
  target point, the loop body only sets its velocity to \<open>{x: 0, y: 0}\<close>, whatever the
  velocity was, and after the run of \<open>updatePhysics\<close> the velocity is \<open>{x: 0, y: 0}\<close> and
  the position is the one before: no spring force was applied.
\<close>

theorem updatePhysics_held_velocity:
  assumes c: "controlPoints s = Some cps" and l: "length cps = 4" and d: "distinct cps"
    and r: "length (initialPoints s) = 4" and v: "length (physics_velocities s) = 2"
    and m: "mouse s = Some m"
    and e: "physics_enabled s"
    and i: "i = 1 \<or> i = 2"
    and t: "targetPoint m = Some (cps ! i)"
  shows "updatePhysics_body i s =
           Some (s\<lparr>physics_velocities := (physics_velocities s)[i - 1 := \<lparr>pt_x = 0, pt_y = 0\<rparr>]\<rparr>) \<and>
         (\<exists>s'. updatePhysics s = Some s' \<and>
               physics_velocities s' ! (i - 1) = \<lparr>pt_x = 0, pt_y = 0\<rparr> \<and>
               heap s' (cps ! i) = heap s (cps ! i))"
proof (rule conjI)
  have il: "i < length cps" "i - 1 < length (physics_velocities s)" using i l v by auto
  show held: "updatePhysics_body i s =
           Some (s\<lparr>physics_velocities := (physics_velocities s)[i - 1 := \<lparr>pt_x = 0, pt_y = 0\<rparr>]\<rparr>)"
    using updatePhysics_body_held [OF c il m t] .
  obtain s1 s2 where b1: "updatePhysics_body 1 s = Some s1"
    and b2: "updatePhysics_body 2 s1 = Some s2"
    using updatePhysics_steps [OF c l r v m] by blast
  note f1 = updatePhysics_body_fields [OF b1]
  have c1: "controlPoints s1 = Some cps" and m1: "mouse s1 = Some m" using f1 c m by simp_all
  have v1: "length (physics_velocities s1) = 2"
    using updatePhysics_body_velocities(1) [OF b1] v by simp
  have ne: "cps ! 1 \<noteq> cps ! 2" using d l by (simp add: nth_eq_iff_index_eq)
  let ?s' = "s2\<lparr>particles_list :=
                 filter (\<lambda>p. 0 < life p) (map updateParticle (particles_list s2))\<rparr>"
  have u: "updatePhysics s = Some ?s'"
    using e b1 b2 by (simp add: updatePhysics_unroll)
  have "physics_velocities s2 ! (i - 1) = \<lparr>pt_x = 0, pt_y = 0\<rparr> \<and> heap s2 (cps ! i) = heap s (cps ! i)"
  proof (cases "i = 1")
    case True
    have s1: "s1 = s\<lparr>physics_velocities := (physics_velocities s)[0 := \<lparr>pt_x = 0, pt_y = 0\<rparr>]\<rparr>"
      using held b1 True by simp
    have "physics_velocities s2 ! 0 = physics_velocities s1 ! 0"
      using updatePhysics_body_velocities(2) [OF b2, of 0] by simp
    moreover have "heap s2 (cps ! 1) = heap s1 (cps ! 1)"
      using updatePhysics_body_heap [OF b2 c1 ne] .
    ultimately show ?thesis using True v by (simp add: s1)
  next
    case False
    then have i2: "i = 2" using i by simp
    have t1: "targetPoint m = Some (cps ! 2)" using t i2 by simp
    have "updatePhysics_body 2 s1 =
            Some (s1\<lparr>physics_velocities := (physics_velocities s1)[2 - 1 := \<lparr>pt_x = 0, pt_y = 0\<rparr>]\<rparr>)"
      using updatePhysics_body_held [OF c1 _ _ m1 t1] l v1 by simp
    then have s2: "s2 = s1\<lparr>physics_velocities := (physics_velocities s1)[1 := \<lparr>pt_x = 0, pt_y = 0\<rparr>]\<rparr>"
      using b2 by simp
    have "heap s1 (cps ! 2) = heap s (cps ! 2)"
      using updatePhysics_body_heap [OF b1 c ne [symmetric]] .
    then show ?thesis using i2 v1 by (simp add: s2)
  qed
  then show "\<exists>s'. updatePhysics s = Some s' \<and>
               physics_velocities s' ! (i - 1) = \<lparr>pt_x = 0, pt_y = 0\<rparr> \<and>
               heap s' (cps ! i) = heap s (cps ! i)"
    using u by simp
qed

text \<open>
  C2 as stated fails: while physics is paused \<open>updatePhysics\<close> returns at once, and the
  velocity \<open>{x: 5, y: 5}\<close> of the held point \<open>P1\<close> stays.
\<close>

theorem updatePhysics_paused_counterexample:
  "mouse reactor_paused = Some (mouse0\<lparr>isDown := True, targetPoint := Some 1\<rparr>) \<and>
   controlPoints reactor_paused = Some [0, 1, 2, 3] \<and>
   updatePhysics reactor_paused = Some reactor_paused \<and>
   physics_velocities reactor_paused ! 0 = \<lparr>pt_x = 5, pt_y = 5\<rparr> \<and>
   physics_velocities reactor_paused ! 0 \<noteq> \<lparr>pt_x = 0, pt_y = 0\<rparr>"
  by (simp add: updatePhysics_def reactor_paused_def reactor0_def)

theorem updatePhysics_held_velocity_witness:
  "controlPoints reactor_held = Some [0, 1, 2, 3] \<and> distinct [0, 1, 2, 3 :: ref] \<and>
   length (initialPoints reactor_held) = 4 \<and> length (physics_velocities reactor_held) = 2 \<and>
   mouse reactor_held = Some (mouse0\<lparr>isDown := True, targetPoint := Some 1\<rparr>) \<and>
   physics_enabled reactor_held \<and>
   targetPoint (mouse0\<lparr>isDown := True, targetPoint := Some 1\<rparr>) = Some ([0, 1, 2, 3] ! 1) \<and>
   physics_velocities reactor_held ! 0 = \<lparr>pt_x = 5, pt_y = 5\<rparr> \<and>
   (\<exists>s'. updatePhysics reactor_held = Some s' \<and>
         physics_velocities s' ! 0 = \<lparr>pt_x = 0, pt_y = 0\<rparr> \<and>
         heap s' 1 = \<lparr>pt_x = 350, pt_y = 120\<rparr>)"
proof -
  have c: "controlPoints reactor_held = Some [0, 1, 2, 3]"
    and r: "length (initialPoints reactor_held) = 4"
    and v: "length (physics_velocities reactor_held) = 2"
    and m: "mouse reactor_held = Some (mouse0\<lparr>isDown := True, targetPoint := Some 1\<rparr>)"
    and e: "physics_enabled reactor_held"
    and w: "physics_velocities reactor_held ! 0 = \<lparr>pt_x = 5, pt_y = 5\<rparr>"
    and h: "heap reactor_held 1 = \<lparr>pt_x = 350, pt_y = 120\<rparr>"
    by (simp_all add: reactor_held_def reactor_paused_def reactor0_def rest1000_def)
  have l: "length [0, 1, 2, 3 :: ref] = 4" and d: "distinct [0, 1, 2, 3 :: ref]" by simp_all
  have i: "(1::nat) = 1 \<or> (1::nat) = 2" by simp
  have t: "targetPoint (mouse0\<lparr>isDown := True, targetPoint := Some 1\<rparr>) = Some ([0, 1, 2, 3] ! 1)"
    by simp
  show ?thesis
    using updatePhysics_held_velocity [OF c l d r v m e i t] c d r v m e t w h
    by auto
qed

lemma dpi_cong: "devicePixelRatio s' = devicePixelRatio s \<Longrightarrow> dpi s' = dpi s"
  by (simp add: dpi_def)

lemma rest_invariant_transfer:
  assumes "rest_invariant i cps m s"
    and "controlPoints s' = controlPoints s" and "initialPoints s' = initialPoints s"
    and "mouse s' = mouse s" and "canvas_width s' = canvas_width s"
    and "canvas_height s' = canvas_height s" and "devicePixelRatio s' = devicePixelRatio s"
    and "length (physics_velocities s') = length (physics_velocities s)"
    and "heap s' (cps ! i) = heap s (cps ! i)"
    and "physics_velocities s' ! (i - 1) = physics_velocities s ! (i - 1)"
  shows "rest_invariant i cps m s'"
  using assms dpi_cong [of s' s] unfolding rest_invariant_def by simp

lemma rest_invariant_body:
  assumes "rest_invariant i cps m s" and "i = 1 \<or> i = 2"
  shows "updatePhysics_body i s = Some s"
proof -
  have "i < length cps" "i - 1 < length (physics_velocities s)" "i < length (initialPoints s)"
    using assms unfolding rest_invariant_def by auto
  then show ?thesis
    using assms(1) unfolding rest_invariant_def
    by (intro updatePhysics_body_rest [of s cps i m]) simp_all
qed

lemma rest_invariant_other:
  assumes inv: "rest_invariant i cps m s" and b: "updatePhysics_body j s = Some s'"
    and ij: "i = 1 \<and> j = 2 \<or> i = 2 \<and> j = 1"
  shows "rest_invariant i cps m s'"
proof -
  have c: "controlPoints s = Some cps" and l: "length cps = 4" and d: "distinct cps"
    using inv unfolding rest_invariant_def by simp_all
  have ne: "cps ! i \<noteq> cps ! j" using ij d l by (auto simp: nth_eq_iff_index_eq)
  have h: "heap s' (cps ! i) = heap s (cps ! i)"
    using updatePhysics_body_heap [OF b c ne] .
  have w: "physics_velocities s' ! (i - 1) = physics_velocities s ! (i - 1)"
    using updatePhysics_body_velocities(2) [OF b, of "i - 1"] ij by auto
  show ?thesis
    using rest_invariant_transfer [OF inv _ _ _ _ _ _ _ h w]
          updatePhysics_body_fields [OF b] updatePhysics_body_velocities(1) [OF b]
    by simp
qed

lemma rest_invariant_tick:
  assumes inv: "rest_invariant i cps m s" and i: "i = 1 \<or> i = 2"
  shows "\<exists>s'. updatePhysics s = Some s' \<and> rest_invariant i cps m s' \<and>
              initialPoints s' = initialPoints s"
proof (cases "physics_enabled s")
  case False
  then show ?thesis using inv by (simp add: updatePhysics_unroll)
next
  case True
  have "\<exists>s2. (case updatePhysics_body 1 s of None \<Rightarrow> None | Some s1 \<Rightarrow> updatePhysics_body 2 s1) = Some s2 \<and>
             rest_invariant i cps m s2 \<and> initialPoints s2 = initialPoints s"
  proof (cases "i = 1")
    case True
    then have b1: "updatePhysics_body 1 s = Some s" using rest_invariant_body [OF inv i] by simp
    have "controlPoints s = Some cps" "length cps = 4" "length (initialPoints s) = 4"
         "length (physics_velocities s) = 2" "mouse s = Some m"
      using inv unfolding rest_invariant_def by simp_all
    then obtain s2 where b2: "updatePhysics_body 2 s = Some s2"
      using updatePhysics_body_returns [of s cps 2 m] by auto
    have "rest_invariant i cps m s2"
      using rest_invariant_other [OF inv b2] True by simp
    then show ?thesis using b1 b2 updatePhysics_body_fields(2) [OF b2] by simp
  next
    case False
    then have i2: "i = 2" using i by simp
    have "controlPoints s = Some cps" "length cps = 4" "length (initialPoints s) = 4"
         "length (physics_velocities s) = 2" "mouse s = Some m"
      using inv unfolding rest_invariant_def by simp_all
    then obtain s1 where b1: "updatePhysics_body 1 s = Some s1"
      using updatePhysics_body_returns [of s cps 1 m] by auto
    have inv1: "rest_invariant i cps m s1"
      using rest_invariant_other [OF inv b1] i2 by simp
    have b2: "updatePhysics_body 2 s1 = Some s1"
      using rest_invariant_body [OF inv1 i] i2 by simp
    show ?thesis using b1 b2 inv1 updatePhysics_body_fields(2) [OF b1] by simp
  qed
  then obtain s2 where
    s2: "(case updatePhysics_body 1 s of None \<Rightarrow> None | Some s1 \<Rightarrow> updatePhysics_body 2 s1) = Some s2"
    and inv2: "rest_invariant i cps m s2" and ip: "initialPoints s2 = initialPoints s"
    by blast
  let ?s' = "s2\<lparr>particles_list :=
                 filter (\<lambda>p. 0 < life p) (map updateParticle (particles_list s2))\<rparr>"
  have u: "updatePhysics s = Some ?s'"
    using True s2 by (auto simp: updatePhysics_unroll split: option.splits)
  have "rest_invariant i cps m ?s'"
    by (rule rest_invariant_transfer [OF inv2]) simp_all
  then show ?thesis using u ip by simp
qed

lemma rest_invariant_animate:
  assumes "rest_invariant i cps m s" and "i = 1 \<or> i = 2"
  shows "\<exists>s'. animate n s = Some s' \<and> rest_invariant i cps m s' \<and>
              initialPoints s' = initialPoints s"
  using assms(1)
proof (induction n arbitrary: s)
  case 0
  then show ?case by simp
next
  case (Suc n)
  from rest_invariant_tick [OF Suc.prems assms(2)] obtain s1 where
    u: "updatePhysics s = Some s1" and inv1: "rest_invariant i cps m s1"
    and ip: "initialPoints s1 = initialPoints s"
    by blast
  from Suc.IH [OF inv1] show ?case using u ip by simp
qed

text \<open>
  C5.  With stiffness 0.05, damping 0.90 and mouse influence 0.5, a movable point that is
  at its rest-pose position with zero velocity, the pointer being at the canvas centre
  with zero velocity and the rest-pose position being within the margins of 30, is at
  exactly that position with zero velocity after any number of frames.
\<close>

theorem animate_rest_stationary:
  assumes "controlPoints s = Some cps" and "length cps = 4" and "distinct cps"
    and "length (initialPoints s) = 4" and "length (physics_velocities s) = 2"
    and "mouse s = Some m"
    and "physics_stiffness s = 0.05" and "physics_damping s = 0.90"
    and "physics_mouseInfluence s = 0.5"
    and "i = 1 \<or> i = 2"
    and "heap s (cps ! i) = initialPoints s ! i"
    and "physics_velocities s ! (i - 1) = \<lparr>pt_x = 0, pt_y = 0\<rparr>"
    and "mouse_x m / dpi s = canvas_width s / dpi s / 2"
    and "mouse_y m / dpi s = canvas_height s / dpi s / 2"
    and "mouse_vx m = 0" and "mouse_vy m = 0"
    and "30 \<le> pt_x (initialPoints s ! i)"
    and "pt_x (initialPoints s ! i) \<le> canvas_width s / dpi s - 30"
    and "30 \<le> pt_y (initialPoints s ! i)"
    and "pt_y (initialPoints s ! i) \<le> canvas_height s / dpi s - 30"
  shows "\<exists>s'. animate n s = Some s' \<and>
              heap s' (cps ! i) = initialPoints s ! i \<and>
              physics_velocities s' ! (i - 1) = \<lparr>pt_x = 0, pt_y = 0\<rparr>"
proof -
  have inv: "rest_invariant i cps m s"
    unfolding rest_invariant_def using assms by simp
  from rest_invariant_animate [OF inv assms(10), of n] obtain s' where
    "animate n s = Some s'" "rest_invariant i cps m s'" "initialPoints s' = initialPoints s"
    by blast
  then show ?thesis unfolding rest_invariant_def by auto
qed

theorem animate_rest_stationary_witness:
  "controlPoints reactor_pulled = Some [0, 1, 2, 3] \<and>
   heap reactor_pulled 1 = initialPoints reactor_pulled ! 1 \<and>
   heap reactor_pulled 2 \<noteq> initialPoints reactor_pulled ! 2 \<and>
   physics_velocities reactor_pulled ! 0 = \<lparr>pt_x = 0, pt_y = 0\<rparr> \<and>
   (\<exists>s'. animate 3 reactor_pulled = Some s' \<and>
         heap s' 1 = \<lparr>pt_x = 350, pt_y = 120\<rparr> \<and>
         physics_velocities s' ! 0 = \<lparr>pt_x = 0, pt_y = 0\<rparr>)"
proof -
  have c: "controlPoints reactor_pulled = Some [0, 1, 2, 3]"
    and r: "length (initialPoints reactor_pulled) = 4"
    and v: "length (physics_velocities reactor_pulled) = 2"
    and m: "mouse reactor_pulled = Some mouse0"
    and k: "physics_stiffness reactor_pulled = 0.05" "physics_damping reactor_pulled = 0.90"
           "physics_mouseInfluence reactor_pulled = 0.5"
    and h: "heap reactor_pulled ([0, 1, 2, 3] ! 1) = initialPoints reactor_pulled ! 1"
    and h2: "heap reactor_pulled 2 \<noteq> initialPoints reactor_pulled ! 2"
    and w: "physics_velocities reactor_pulled ! (1 - 1) = \<lparr>pt_x = 0, pt_y = 0\<rparr>"
    and ip: "initialPoints reactor_pulled ! 1 = \<lparr>pt_x = 350, pt_y = 120\<rparr>"
    by (simp_all add: reactor_pulled_def reactor0_def rest1000_def)
  have l: "length [0, 1, 2, 3 :: ref] = 4" and d: "distinct [0, 1, 2, 3 :: ref]" by simp_all
  have i: "(1::nat) = 1 \<or> (1::nat) = 2" by simp
  have mx: "mouse_x mouse0 / dpi reactor_pulled = canvas_width reactor_pulled / dpi reactor_pulled / 2"
           "mouse_y mouse0 / dpi reactor_pulled = canvas_height reactor_pulled / dpi reactor_pulled / 2"
           "mouse_vx mouse0 = 0" "mouse_vy mouse0 = 0"
    by (simp_all add: reactor_pulled_def reactor0_def mouse0_def dpi_def)
  have b: "30 \<le> pt_x (initialPoints reactor_pulled ! 1)"
          "pt_x (initialPoints reactor_pulled ! 1) \<le> canvas_width reactor_pulled / dpi reactor_pulled - 30"
          "30 \<le> pt_y (initialPoints reactor_pulled ! 1)"
          "pt_y (initialPoints reactor_pulled ! 1) \<le> canvas_height reactor_pulled / dpi reactor_pulled - 30"
    by (simp_all add: reactor_pulled_def reactor0_def rest1000_def dpi_def)
  show ?thesis
    using animate_rest_stationary [OF c l d r v m k i h w mx b, of 3] c h h2 w ip
    by auto
qed

subsection \<open>Resizing the canvas\<close>

lemma canvasSize_examples:
  "canvasSize 300 500 = 500" "canvasSize 150 600 = 600"
  "canvasSize 300 1001 = 1001" "canvasSize 300 (1001 * 1.5) = 1501" "canvasSize 150 (600 * 1.5) = 900"
  by (simp_all add: canvasSize_def)

text \<open>At a fractional pixel ratio the width of the canvas is truncated.\<close>

lemma resizeCanvas_truncates:
  "canvas_width (resizeCanvas 1001 reactor_hidpi) = 1501"
  "canvas_height (resizeCanvas 1001 reactor_hidpi) = 900"
  by (simp_all add: resizeCanvas_def calculateInitialPoints_def Let_def dpi_def canvasSize_def
        reactor_hidpi_def reactor0_def mouse0_def)

text \<open>Whatever the pointer does, a resize leaves control points that exist as they are.\<close>

lemma resizeCanvas_keeps_controlPoints:
  assumes "controlPoints s = Some cps"
  shows "controlPoints (resizeCanvas cw s) = Some cps" and "heap (resizeCanvas cw s) = heap s"
  using assms by (simp_all add: resizeCanvas_def calculateInitialPoints_def Let_def)

text \<open>
  C3.  The claim is that after a resize with no point under manual control the rest pose
  is recomputed from the new surface size and \<open>P1\<close> and \<open>P2\<close> are at their rest-pose
  positions.  The code recomputes the rest pose and leaves the control points: with the
  pointer up and no target point, \<open>P2\<close> at (700, 200) on a surface of width 1000, and the
  container resized to width 500, the rest pose becomes (75, 360), (175, 120), (325, 120),
  (425, 360) while \<open>P1\<close> stays at (350, 120), \<open>P2\<close> at (700, 200) and \<open>P3\<close> at (850, 360),
  beyond the new surface.
\<close>

theorem resizeCanvas_stale_controlPoints:
  "mouse reactor_pulled = Some mouse0 \<and> \<not> isDown mouse0 \<and> targetPoint mouse0 = None \<and>
   canvas_width (resizeCanvas 500 reactor_pulled) / dpi (resizeCanvas 500 reactor_pulled) = 500 \<and>
   canvas_height (resizeCanvas 500 reactor_pulled) / dpi (resizeCanvas 500 reactor_pulled) = 600 \<and>
   initialPoints (resizeCanvas 500 reactor_pulled) =
     [\<lparr>pt_x = 75, pt_y = 360\<rparr>, \<lparr>pt_x = 175, pt_y = 120\<rparr>,
      \<lparr>pt_x = 325, pt_y = 120\<rparr>, \<lparr>pt_x = 425, pt_y = 360\<rparr>] \<and>
   controlPoint (resizeCanvas 500 reactor_pulled) 1 = Some \<lparr>pt_x = 350, pt_y = 120\<rparr> \<and>
   controlPoint (resizeCanvas 500 reactor_pulled) 2 = Some \<lparr>pt_x = 700, pt_y = 200\<rparr> \<and>
   controlPoint (resizeCanvas 500 reactor_pulled) 3 = Some \<lparr>pt_x = 850, pt_y = 360\<rparr>"
  by (simp add: resizeCanvas_def calculateInitialPoints_def controlPoint_def Let_def dpi_def
        canvasSize_def reactor_pulled_def reactor0_def mouse0_def rest1000_def)

end
